theory Spec2Isabelle
  imports Main "HOL-Library.Sublist" "HOL-Library.Word"
begin

section \<open>JavaScript values and string primitives\<close>

text \<open>
  A JavaScript string is a sequence of UTF-16 code units. The model uses \<^typ>\<open>string\<close>,
  reading each \<^typ>\<open>char\<close> as the code unit of the same number (U+0000 to U+00FF), so
  \<^const>\<open>length\<close> is the \<^verbatim>\<open>.length\<close> of the source. All literals of the source are ASCII.
  Where the value of a code unit beyond that range decides what the code does (the cipher,
  which encodes its arguments as UTF-8), a string is a list of 16-bit words.
\<close>

text \<open>
  \<^verbatim>\<open>String.prototype.toLowerCase\<close> on one code unit of that range: the ASCII capitals and the
  Latin-1 capitals U+00C0 to U+00DE (without the multiplication sign U+00D7) move up by 32.
\<close>

definition toLowerCase_char :: "char \<Rightarrow> char" where
  "toLowerCase_char c =
     (let n = (of_char c :: nat)
      in if (65 \<le> n \<and> n \<le> 90) \<or> (192 \<le> n \<and> n \<le> 222 \<and> n \<noteq> 215)
         then char_of (n + 32) else c)"

definition toLowerCase :: "string \<Rightarrow> string" where
  "toLowerCase s = map toLowerCase_char s"

text \<open>\<^verbatim>\<open>haystack.includes(needle)\<close>: the needle occurs as a contiguous substring.\<close>

fun str_includes :: "string \<Rightarrow> string \<Rightarrow> bool" where
  "str_includes [] needle = (needle = [])"
| "str_includes (c # cs) needle = (prefix needle (c # cs) \<or> str_includes cs needle)"

text \<open>
  A thrown value: an instance of \<^verbatim>\<open>Error\<close> with its \<^verbatim>\<open>message\<close>, or any other value
  (\<^verbatim>\<open>error instanceof Error\<close> is false for it).
\<close>

datatype thrown = Error string | NonError

text \<open>\<^verbatim>\<open>error instanceof Error ? error.message : 'Unknown error'\<close>\<close>

fun message_or_unknown :: "thrown \<Rightarrow> string" where
  "message_or_unknown (Error m) = m"
| "message_or_unknown NonError = ''Unknown error''"

section \<open>SyncService: retryability of an error\<close>

fun isRetryableError :: "thrown \<Rightarrow> bool" where
  "isRetryableError (Error msg) =
     (let message = toLowerCase msg
      in if str_includes message ''network'' \<or> str_includes message ''timeout''
            \<or> str_includes message ''connection'' \<or> str_includes message ''fetch''
         then True
         else if str_includes message ''500'' \<or> str_includes message ''502''
            \<or> str_includes message ''503'' \<or> str_includes message ''504''
         then True
         else if str_includes message ''rate limit'' \<or> str_includes message ''429''
         then True
         else False)"
| "isRetryableError NonError = False"


section \<open>DatabaseService: the local record store\<close>

text \<open>
  One row of the \<^verbatim>\<open>health_logs\<close> table (interface \<^verbatim>\<open>HealthLogRecord\<close>). SQLite's
  \<^verbatim>\<open>DATETIME\<close> values are points in time, modelled as natural numbers; \<^verbatim>\<open>NULL\<close> is
  \<^const>\<open>None\<close>. The field \<^verbatim>\<open>id\<close> is written \<open>id'\<close>.
\<close>

record HealthLogRecord =
  id' :: int
  user_id :: int
  encrypted_data :: string
  created_at :: nat
  updated_at :: nat
  synced_at :: "nat option"
  cloud_id :: "string option"

text \<open>
  The open database behind the handle \<^verbatim>\<open>this.db\<close>: the rows of \<^verbatim>\<open>health_logs\<close> in
  insertion order and the \<^verbatim>\<open>AUTOINCREMENT\<close> counter of the table (the largest row id ever
  handed out).
\<close>

record SQLiteDatabase =
  health_logs :: "HealthLogRecord list"
  health_logs_seq :: int

record DatabaseService =
  db :: "SQLiteDatabase option"

text \<open>
  What the SQLite driver does with one statement is outside the repository: it either
  rejects (the value \<open>e\<close> is the text that \<^verbatim>\<open>${error}\<close> renders) or runs the statement, and
  then \<^verbatim>\<open>CURRENT_TIMESTAMP\<close> has the given value. Every method takes that outcome as its
  first argument. A rejected statement changes no row.
\<close>

datatype stmt_run = Rejects string | Runs nat

definition createHealthLog ::
  "stmt_run \<Rightarrow> int \<Rightarrow> string \<Rightarrow> DatabaseService \<Rightarrow> (thrown + int) \<times> DatabaseService" where
  "createHealthLog run userId encryptedData svc =
     (case db svc of
        None \<Rightarrow> (Inl (Error ''Database not initialized''), svc)
      | Some d \<Rightarrow>
          (case run of
             Rejects e \<Rightarrow> (Inl (Error (''Failed to create health log: '' @ e)), svc)
           | Runs now \<Rightarrow>
               (let lastInsertRowId = health_logs_seq d + 1;
                    row = \<lparr>id' = lastInsertRowId, user_id = userId,
                           encrypted_data = encryptedData, created_at = now,
                           updated_at = now, synced_at = None, cloud_id = None\<rparr>
                in (Inr lastInsertRowId,
                    svc\<lparr>db := Some (d\<lparr>health_logs := health_logs d @ [row],
                                       health_logs_seq := lastInsertRowId\<rparr>)\<rparr>))))"

text \<open>
  \<^verbatim>\<open>ORDER BY created_at DESC\<close>: newest first; rows of equal \<^verbatim>\<open>created_at\<close> come in
  insertion order, as SQLite returns them for this query.
\<close>

definition getHealthLogsByUserId ::
  "stmt_run \<Rightarrow> int \<Rightarrow> DatabaseService \<Rightarrow> thrown + HealthLogRecord list" where
  "getHealthLogsByUserId run userId svc =
     (case db svc of
        None \<Rightarrow> Inl (Error ''Database not initialized'')
      | Some d \<Rightarrow>
          (case run of
             Rejects e \<Rightarrow> Inl (Error (''Failed to get health logs: '' @ e))
           | Runs now \<Rightarrow>
               Inr (sort_key (\<lambda>r. - int (created_at r))
                      (filter (\<lambda>r. user_id r = userId) (health_logs d)))))"

definition getHealthLogById ::
  "stmt_run \<Rightarrow> int \<Rightarrow> DatabaseService \<Rightarrow> thrown + HealthLogRecord option" where
  "getHealthLogById run i svc =
     (case db svc of
        None \<Rightarrow> Inl (Error ''Database not initialized'')
      | Some d \<Rightarrow>
          (case run of
             Rejects e \<Rightarrow> Inl (Error (''Failed to get health log: '' @ e))
           | Runs now \<Rightarrow> Inr (find (\<lambda>r. id' r = i) (health_logs d))))"

definition updateHealthLog ::
  "stmt_run \<Rightarrow> int \<Rightarrow> string \<Rightarrow> DatabaseService \<Rightarrow> (thrown + unit) \<times> DatabaseService" where
  "updateHealthLog run i encryptedData svc =
     (case db svc of
        None \<Rightarrow> (Inl (Error ''Database not initialized''), svc)
      | Some d \<Rightarrow>
          (case run of
             Rejects e \<Rightarrow> (Inl (Error (''Failed to update health log: '' @ e)), svc)
           | Runs now \<Rightarrow>
               (Inr (),
                svc\<lparr>db := Some (d\<lparr>health_logs :=
                   map (\<lambda>r. if id' r = i
                             then r\<lparr>encrypted_data := encryptedData, updated_at := now\<rparr>
                             else r) (health_logs d)\<rparr>)\<rparr>)))"

definition deleteHealthLog ::
  "stmt_run \<Rightarrow> int \<Rightarrow> DatabaseService \<Rightarrow> (thrown + unit) \<times> DatabaseService" where
  "deleteHealthLog run i svc =
     (case db svc of
        None \<Rightarrow> (Inl (Error ''Database not initialized''), svc)
      | Some d \<Rightarrow>
          (case run of
             Rejects e \<Rightarrow> (Inl (Error (''Failed to delete health log: '' @ e)), svc)
           | Runs now \<Rightarrow>
               (Inr (),
                svc\<lparr>db := Some (d\<lparr>health_logs :=
                   filter (\<lambda>r. id' r \<noteq> i) (health_logs d)\<rparr>)\<rparr>)))"

definition markHealthLogAsSynced ::
  "stmt_run \<Rightarrow> int \<Rightarrow> string \<Rightarrow> DatabaseService \<Rightarrow> (thrown + unit) \<times> DatabaseService" where
  "markHealthLogAsSynced run i cloudId svc =
     (case db svc of
        None \<Rightarrow> (Inl (Error ''Database not initialized''), svc)
      | Some d \<Rightarrow>
          (case run of
             Rejects e \<Rightarrow> (Inl (Error (''Failed to mark health log as synced: '' @ e)), svc)
           | Runs now \<Rightarrow>
               (Inr (),
                svc\<lparr>db := Some (d\<lparr>health_logs :=
                   map (\<lambda>r. if id' r = i
                             then r\<lparr>synced_at := Some now, cloud_id := Some cloudId\<rparr>
                             else r) (health_logs d)\<rparr>)\<rparr>)))"

text \<open>\<^verbatim>\<open>WHERE user_id = ? AND synced_at IS NULL ORDER BY created_at ASC\<close>\<close>

definition getUnsyncedHealthLogs ::
  "stmt_run \<Rightarrow> int \<Rightarrow> DatabaseService \<Rightarrow> thrown + HealthLogRecord list" where
  "getUnsyncedHealthLogs run userId svc =
     (case db svc of
        None \<Rightarrow> Inl (Error ''Database not initialized'')
      | Some d \<Rightarrow>
          (case run of
             Rejects e \<Rightarrow> Inl (Error (''Failed to get unsynced health logs: '' @ e))
           | Runs now \<Rightarrow>
               Inr (sort_key created_at
                      (filter (\<lambda>r. user_id r = userId \<and> synced_at r = None)
                              (health_logs d)))))"

text \<open>
  \<^verbatim>\<open>clearAllData\<close> runs three \<^verbatim>\<open>DELETE\<close> statements in turn; only the first touches
  \<^verbatim>\<open>health_logs\<close>. A rejection of a later statement leaves the earlier deletions done.
\<close>

definition clearAllData ::
  "stmt_run \<Rightarrow> stmt_run \<Rightarrow> stmt_run \<Rightarrow> DatabaseService \<Rightarrow> (thrown + unit) \<times> DatabaseService" where
  "clearAllData run1 run2 run3 svc =
     (case db svc of
        None \<Rightarrow> (Inl (Error ''Database not initialized''), svc)
      | Some d \<Rightarrow>
          (case run1 of
             Rejects e \<Rightarrow> (Inl (Error (''Failed to clear data: '' @ e)), svc)
           | Runs now \<Rightarrow>
               (let svc' = svc\<lparr>db := Some (d\<lparr>health_logs := []\<rparr>)\<rparr>
                in case run2 of
                     Rejects e \<Rightarrow> (Inl (Error (''Failed to clear data: '' @ e)), svc')
                   | Runs now2 \<Rightarrow>
                       (case run3 of
                          Rejects e \<Rightarrow> (Inl (Error (''Failed to clear data: '' @ e)), svc')
                        | Runs now3 \<Rightarrow> (Inr (), svc')))))"

text \<open>
  A call of one of the store's operations, and the store after a sequence of calls
  (whatever each call returned or threw).
\<close>

datatype store_call =
    CreateHealthLog stmt_run int string
  | GetHealthLogsByUserId stmt_run int
  | GetHealthLogById stmt_run int
  | UpdateHealthLog stmt_run int string
  | DeleteHealthLog stmt_run int
  | MarkHealthLogAsSynced stmt_run int string
  | GetUnsyncedHealthLogs stmt_run int
  | ClearAllData stmt_run stmt_run stmt_run

fun perform :: "store_call \<Rightarrow> DatabaseService \<Rightarrow> DatabaseService" where
  "perform (CreateHealthLog run u data) svc = snd (createHealthLog run u data svc)"
| "perform (GetHealthLogsByUserId run u) svc = svc"
| "perform (GetHealthLogById run i) svc = svc"
| "perform (UpdateHealthLog run i data) svc = snd (updateHealthLog run i data svc)"
| "perform (DeleteHealthLog run i) svc = snd (deleteHealthLog run i svc)"
| "perform (MarkHealthLogAsSynced run i c) svc = snd (markHealthLogAsSynced run i c svc)"
| "perform (GetUnsyncedHealthLogs run u) svc = svc"
| "perform (ClearAllData r1 r2 r3) svc = snd (clearAllData r1 r2 r3 svc)"

definition perform_all :: "store_call list \<Rightarrow> DatabaseService \<Rightarrow> DatabaseService" where
  "perform_all calls svc = fold perform calls svc"

text \<open>The rows of the store (none while the handle is \<^verbatim>\<open>null\<close>).\<close>

definition rows :: "DatabaseService \<Rightarrow> HealthLogRecord list" where
  "rows svc = (case db svc of None \<Rightarrow> [] | Some d \<Rightarrow> health_logs d)"

text \<open>The data-model invariant: \<^verbatim>\<open>synced_at\<close> and \<^verbatim>\<open>cloud_id\<close> are null together.\<close>

definition sync_fields_paired :: "DatabaseService \<Rightarrow> bool" where
  "sync_fields_paired svc = list_all (\<lambda>r. (synced_at r = None) = (cloud_id r = None)) (rows svc)"

text \<open>The store right after \<^verbatim>\<open>initialize()\<close> on a fresh installation.\<close>

definition fresh_store :: DatabaseService where
  "fresh_store = \<lparr>db = Some \<lparr>health_logs = [], health_logs_seq = 0\<rparr>\<rparr>"


section \<open>EncryptionService: the cipher\<close>

text \<open>
  The library \<^verbatim>\<open>crypto-js\<close> is not part of the repository; the wrappers take it as a
  parameter. \<open>AES_encrypt data key salt\<close> is \<^verbatim>\<open>CryptoJS.AES.encrypt(data, key).toString()\<close>,
  where \<open>salt\<close> is the randomness the library draws for this call;
  \<open>AES_decrypt ciphertext key\<close> is
  \<^verbatim>\<open>CryptoJS.AES.decrypt(ciphertext, key).toString(CryptoJS.enc.Utf8)\<close>.
  Either may throw. The wrappers look at their arguments only to see whether they are
  empty, so they are written for any type \<open>'c\<close> of code unit.
\<close>

record ('c, 'salt) CryptoJS =
  AES_encrypt :: "'c list \<Rightarrow> 'c list \<Rightarrow> 'salt \<Rightarrow> thrown + 'c list"
  AES_decrypt :: "'c list \<Rightarrow> 'c list \<Rightarrow> thrown + 'c list"

record 'c EncryptionResult =
  encryptedData :: "'c list"
  enc_success :: bool
  enc_error :: "string option"

record 'c DecryptionResult =
  decryptedData :: "'c list"
  dec_success :: bool
  dec_error :: "string option"

definition encrypt ::
  "('c, 'salt) CryptoJS \<Rightarrow> 'salt \<Rightarrow> 'c list \<Rightarrow> 'c list \<Rightarrow> 'c EncryptionResult" where
  "encrypt lib salt data key =
     (if data = [] \<or> key = []
      then \<lparr>encryptedData = [], enc_success = False,
            enc_error = Some ''Data and key are required for encryption''\<rparr>
      else (case AES_encrypt lib data key salt of
              Inr encrypted \<Rightarrow>
                \<lparr>encryptedData = encrypted, enc_success = True, enc_error = None\<rparr>
            | Inl err \<Rightarrow>
                \<lparr>encryptedData = [], enc_success = False,
                 enc_error = Some (''Encryption failed: '' @ message_or_unknown err)\<rparr>))"

definition decrypt ::
  "('c, 'salt) CryptoJS \<Rightarrow> 'c list \<Rightarrow> 'c list \<Rightarrow> 'c DecryptionResult" where
  "decrypt lib encrypted key =
     (if encrypted = [] \<or> key = []
      then \<lparr>decryptedData = [], dec_success = False,
            dec_error = Some ''Encrypted data and key are required for decryption''\<rparr>
      else (case AES_decrypt lib encrypted key of
              Inr decrypted \<Rightarrow>
                (if decrypted = []
                 then \<lparr>decryptedData = [], dec_success = False,
                       dec_error = Some ''Decryption failed: Invalid key or corrupted data''\<rparr>
                 else \<lparr>decryptedData = decrypted, dec_success = True, dec_error = None\<rparr>)
            | Inl err \<Rightarrow>
                \<lparr>decryptedData = [], dec_success = False,
                 dec_error = Some (''Decryption failed: '' @ message_or_unknown err)\<rparr>))"

text \<open>
  A small stand-in for the library over the characters of the model, for running the
  record service on concrete inputs: the ciphertext is the salt character, the reversed
  key and the data; decryption under another key yields the empty text, as \<^verbatim>\<open>crypto-js\<close>
  commonly does for a wrong passphrase.
\<close>

definition toy_AES :: "(char, char) CryptoJS" where
  "toy_AES =
     \<lparr>AES_encrypt = (\<lambda>data key salt. Inr (salt # rev key @ data)),
      AES_decrypt = (\<lambda>c key. if prefix (rev key) (tl c)
                               then Inr (drop (length key) (tl c)) else Inr [])\<rparr>"

subsection \<open>What the library does with a string\<close>

















section \<open>SyncService\<close>

record SyncError =
  localId :: int
  error :: string
  retryable :: bool

record SyncResult =
  success :: bool
  syncedCount :: nat
  failedCount :: nat
  errors :: "SyncError list"

text \<open>The row handed to \<^verbatim>\<open>supabase.from('health_logs').insert\<close>.\<close>

record insert_row =
  ins_user_id :: string
  ins_encrypted_data :: string
  device_id :: string

text \<open>
  The answers \<^verbatim>\<open>{data, error}\<close> of the Supabase client: of the connectivity probe only
  \<^verbatim>\<open>error\<close> is read (its message, or \<^const>\<open>None\<close> for \<^verbatim>\<open>null\<close>); of \<^verbatim>\<open>auth.getUser()\<close>
  the user's id (\<^const>\<open>None\<close> for no user) and the error; of the insert the returned
  \<^verbatim>\<open>data?.id\<close> and the error.
\<close>

record getUser_response =
  user :: "string option"
  getUser_error :: "string option"

record insert_response =
  data_id :: "string option"
  insert_error :: "string option"

text \<open>
  The world outside the service (remote store, network, SQLite driver) is a state \<open>'w\<close>
  that each external call reads and advances; a call may also reject with a thrown value.
\<close>

record 'w platform =
  select_limit :: "'w \<Rightarrow> (thrown + string option) \<times> 'w"
  auth_getUser :: "'w \<Rightarrow> (thrown + getUser_response) \<times> 'w"
  insert_single :: "insert_row \<Rightarrow> 'w \<Rightarrow> (thrown + insert_response) \<times> 'w"
  sqlite_run :: "'w \<Rightarrow> stmt_run \<times> 'w"

text \<open>
  What \<^verbatim>\<open>retrySyncWithBackoff\<close> does in time: an attempt of \<^verbatim>\<open>syncHealthLogs\<close> with its
  outcome, or a \<^verbatim>\<open>setTimeout\<close> sleep of so many milliseconds.
\<close>

datatype journal_event = Attempt "thrown + SyncResult" | Slept nat

text \<open>
  The service: its two fields, the \<^verbatim>\<open>DatabaseService\<close> singleton it holds, and the world.
  Two logs record effects the source has but a value cannot show: \<open>uploaded\<close> lists the
  rows sent to the remote insert, \<open>journal\<close> the attempts and sleeps of the retry loop.
\<close>

record 'w SyncService =
  isSyncing :: bool
  deviceId :: "string option"
  databaseService :: DatabaseService
  world :: 'w
  uploaded :: "insert_row list"
  journal :: "journal_event list"

definition checkConnectivity :: "'w platform \<Rightarrow> 'w SyncService \<Rightarrow> bool \<times> 'w SyncService" where
  "checkConnectivity P s =
     (case select_limit P (world s) of
        (Inr err, w) \<Rightarrow> (err = None, s\<lparr>world := w\<rparr>)
      | (Inl thrown, w) \<Rightarrow> (False, s\<lparr>world := w\<rparr>))"

definition getSupabaseUser ::
  "'w platform \<Rightarrow> 'w SyncService \<Rightarrow> string option \<times> 'w SyncService" where
  "getSupabaseUser P s =
     (case auth_getUser P (world s) of
        (Inr r, w) \<Rightarrow>
          (case getUser_error r of
             Some m \<Rightarrow> (None, s\<lparr>world := w\<rparr>)
           | None \<Rightarrow> (user r, s\<lparr>world := w\<rparr>))
      | (Inl thrown, w) \<Rightarrow> (None, s\<lparr>world := w\<rparr>))"

text \<open>The row built from a record; \<^verbatim>\<open>this.deviceId!\<close> is the initialised device id.\<close>

definition row_of :: "'w SyncService \<Rightarrow> HealthLogRecord \<Rightarrow> string \<Rightarrow> insert_row" where
  "row_of s log supabaseUserId =
     \<lparr>ins_user_id = supabaseUserId, ins_encrypted_data = encrypted_data log,
      device_id = (case deviceId s of Some d \<Rightarrow> d | None \<Rightarrow> [])\<rparr>"

definition uploadHealthLog ::
  "'w platform \<Rightarrow> HealthLogRecord \<Rightarrow> string \<Rightarrow> 'w SyncService
     \<Rightarrow> (thrown + string) \<times> 'w SyncService" where
  "uploadHealthLog P log supabaseUserId s =
     (let row = row_of s log supabaseUserId;
          wrap = (\<lambda>err. Inl (Error (''Failed to upload health log: '' @ message_or_unknown err)))
      in case insert_single P row (world s) of
           (reply, w) \<Rightarrow>
             (let s' = s\<lparr>world := w, uploaded := uploaded s @ [row]\<rparr>
              in case reply of
                   Inl thrown \<Rightarrow> (wrap thrown, s')
                 | Inr r \<Rightarrow>
                     (case insert_error r of
                        Some m \<Rightarrow> (wrap (Error (''Supabase insert error: '' @ m)), s')
                      | None \<Rightarrow>
                          (case data_id r of
                             None \<Rightarrow> (wrap (Error ''No ID returned from Supabase insert''), s')
                           | Some i \<Rightarrow>
                               if i = []
                               then (wrap (Error ''No ID returned from Supabase insert''), s')
                               else (Inr i, s')))))"

text \<open>
  \<^verbatim>\<open>this.databaseService.markHealthLogAsSynced(log.id, cloudId)\<close>, with the driver's
  outcome for the statement taken from the world.
\<close>

definition mark_synced ::
  "'w platform \<Rightarrow> int \<Rightarrow> string \<Rightarrow> 'w SyncService \<Rightarrow> (thrown + unit) \<times> 'w SyncService" where
  "mark_synced P i cloudId s =
     (case sqlite_run P (world s) of
        (run, w) \<Rightarrow>
          (case markHealthLogAsSynced run i cloudId (databaseService s) of
             (r, svc) \<Rightarrow> (r, s\<lparr>world := w, databaseService := svc\<rparr>)))"

definition fetch_unsynced ::
  "'w platform \<Rightarrow> int \<Rightarrow> 'w SyncService \<Rightarrow> (thrown + HealthLogRecord list) \<times> 'w SyncService" where
  "fetch_unsynced P userId s =
     (case sqlite_run P (world s) of
        (run, w) \<Rightarrow> (getUnsyncedHealthLogs run userId (databaseService s), s\<lparr>world := w\<rparr>))"

text \<open>The \<^verbatim>\<open>catch\<close> branch of the per-record loop.\<close>

definition record_failure :: "HealthLogRecord \<Rightarrow> thrown \<Rightarrow> SyncResult \<Rightarrow> SyncResult" where
  "record_failure log err result =
     result\<lparr>failedCount := failedCount result + 1,
            errors := errors result @
              [\<lparr>localId = id' log, error = message_or_unknown err,
                retryable = isRetryableError err\<rparr>]\<rparr>"

text \<open>One iteration of \<^verbatim>\<open>for (const log of unsyncedLogs)\<close>.\<close>

definition sync_one ::
  "'w platform \<Rightarrow> string \<Rightarrow> HealthLogRecord \<Rightarrow> SyncResult \<times> 'w SyncService
     \<Rightarrow> SyncResult \<times> 'w SyncService" where
  "sync_one P supabaseUserId log rs =
     (case rs of (result, s) \<Rightarrow>
        (case uploadHealthLog P log supabaseUserId s of
           (Inl err, s1) \<Rightarrow> (record_failure log err result, s1)
         | (Inr cloudId, s1) \<Rightarrow>
             (case mark_synced P (id' log) cloudId s1 of
                (Inl err, s2) \<Rightarrow> (record_failure log err result, s2)
              | (Inr u, s2) \<Rightarrow> (result\<lparr>syncedCount := syncedCount result + 1\<rparr>, s2))))"

fun sync_loop ::
  "'w platform \<Rightarrow> string \<Rightarrow> HealthLogRecord list \<Rightarrow> SyncResult \<times> 'w SyncService
     \<Rightarrow> SyncResult \<times> 'w SyncService" where
  "sync_loop P supabaseUserId [] rs = rs"
| "sync_loop P supabaseUserId (log # logs) rs =
     sync_loop P supabaseUserId logs (sync_one P supabaseUserId log rs)"

text \<open>The \<^verbatim>\<open>try\<close> block of \<^verbatim>\<open>syncHealthLogs\<close>.\<close>

definition sync_try ::
  "'w platform \<Rightarrow> int \<Rightarrow> 'w SyncService \<Rightarrow> (thrown + SyncResult) \<times> 'w SyncService" where
  "sync_try P userId s =
     (case checkConnectivity P s of
        (isOnline, s1) \<Rightarrow>
          if \<not> isOnline then (Inl (Error ''No internet connection available''), s1)
          else
            (case getSupabaseUser P s1 of
               (None, s2) \<Rightarrow> (Inl (Error ''User not authenticated with Supabase''), s2)
             | (Some supabaseUserId, s2) \<Rightarrow>
                 (case fetch_unsynced P userId s2 of
                    (Inl err, s3) \<Rightarrow> (Inl err, s3)
                  | (Inr unsyncedLogs, s3) \<Rightarrow>
                      if length unsyncedLogs = 0
                      then (Inr \<lparr>success = True, syncedCount = 0, failedCount = 0,
                                 errors = []\<rparr>, s3)
                      else
                        (case sync_loop P supabaseUserId unsyncedLogs
                                (\<lparr>success = True, syncedCount = 0, failedCount = 0,
                                  errors = []\<rparr>, s3) of
                           (result, s4) \<Rightarrow>
                             (Inr (result\<lparr>success := syncedCount result > 0
                                                     \<or> failedCount result = 0\<rparr>), s4)))))"

text \<open>\<^verbatim>\<open>!this.deviceId\<close>: the id is \<^verbatim>\<open>null\<close> or the empty string.\<close>

definition not_initialized :: "'w SyncService \<Rightarrow> bool" where
  "not_initialized s = (case deviceId s of None \<Rightarrow> True | Some d \<Rightarrow> d = [])"

definition syncHealthLogs ::
  "'w platform \<Rightarrow> int \<Rightarrow> 'w SyncService \<Rightarrow> (thrown + SyncResult) \<times> 'w SyncService" where
  "syncHealthLogs P userId s =
     (if isSyncing s then (Inl (Error ''Sync already in progress''), s)
      else if not_initialized s then (Inl (Error ''Sync service not initialized''), s)
      else
        (case sync_try P userId (s\<lparr>isSyncing := True\<rparr>) of
           (Inr result, s') \<Rightarrow> (Inr result, s'\<lparr>isSyncing := False\<rparr>)
         | (Inl err, s') \<Rightarrow>
             (Inl (Error (''Sync failed: '' @ message_or_unknown err)),
              s'\<lparr>isSyncing := False\<rparr>)))"

text \<open>
  \<^verbatim>\<open>retrySyncWithBackoff\<close>: the loop \<^verbatim>\<open>for (attempt = 1; attempt <= maxRetries; attempt++)\<close>
  from a given \<open>attempt\<close> on, with \<open>lastError\<close> as it stands. The sleep is
  \<^verbatim>\<open>Math.pow(2, attempt - 1) * 1000\<close> milliseconds.
\<close>

function retry_from ::
  "'w platform \<Rightarrow> int \<Rightarrow> int \<Rightarrow> int \<Rightarrow> thrown option \<Rightarrow> 'w SyncService
     \<Rightarrow> (thrown + SyncResult) \<times> 'w SyncService" where
  "retry_from P userId maxRetries attempt lastError s =
     (if attempt \<le> maxRetries
      then
        (case syncHealthLogs P userId s of
           (outcome, s1) \<Rightarrow>
             (let s2 = s1\<lparr>journal := journal s1 @ [Attempt outcome]\<rparr>
              in case outcome of
                   Inr result \<Rightarrow> (Inr result, s2)
                 | Inl err \<Rightarrow>
                     (let lastError' = (case err of Error m \<Rightarrow> Error m
                                        | NonError \<Rightarrow> Error ''Unknown error'');
                          s3 = (if attempt < maxRetries
                                then s2\<lparr>journal := journal s2 @
                                        [Slept (2 ^ nat (attempt - 1) * 1000)]\<rparr>
                                else s2)
                      in retry_from P userId maxRetries (attempt + 1) (Some lastError') s3)))
      else (Inl (case lastError of Some e \<Rightarrow> e
                 | None \<Rightarrow> Error ''Max retries exceeded''), s))"
  by pat_completeness auto
termination
  by (relation "measure (\<lambda>(P, userId, maxRetries, attempt, lastError, s).
                            nat (maxRetries + 1 - attempt))") auto

definition retrySyncWithBackoff ::
  "'w platform \<Rightarrow> int \<Rightarrow> int \<Rightarrow> 'w SyncService \<Rightarrow> (thrown + SyncResult) \<times> 'w SyncService" where
  "retrySyncWithBackoff P userId maxRetries s = retry_from P userId maxRetries 1 None s"


text \<open>
  A scripted world for running the service on concrete inputs, in the manner of the
  mocks of the test suite: each external call takes the next scripted answer of its
  kind; when the script has run out, the probe succeeds, a user is signed in, the insert
  returns an id and the driver runs the statement.
\<close>

record script =
  probes :: "(thrown + string option) list"
  users :: "(thrown + getUser_response) list"
  inserts :: "(thrown + insert_response) list"
  runs :: "stmt_run list"

definition scripted :: "script platform" where
  "scripted =
     \<lparr>select_limit = (\<lambda>w. case probes w of
                               [] \<Rightarrow> (Inr None, w)
                             | r # rs \<Rightarrow> (r, w\<lparr>probes := rs\<rparr>)),
      auth_getUser = (\<lambda>w. case users w of
                               [] \<Rightarrow> (Inr \<lparr>user = Some ''supabase-user-id'',
                                              getUser_error = None\<rparr>, w)
                             | r # rs \<Rightarrow> (r, w\<lparr>users := rs\<rparr>)),
      insert_single = (\<lambda>row w. case inserts w of
                               [] \<Rightarrow> (Inr \<lparr>data_id = Some ''cloud-id'',
                                              insert_error = None\<rparr>, w)
                             | r # rs \<Rightarrow> (r, w\<lparr>inserts := rs\<rparr>)),
      sqlite_run = (\<lambda>w. case runs w of
                             [] \<Rightarrow> (Runs 0, w)
                           | r # rs \<Rightarrow> (r, w\<lparr>runs := rs\<rparr>))\<rparr>"

text \<open>An initialised, idle service over a given store and script.\<close>

definition idle_service :: "DatabaseService \<Rightarrow> script \<Rightarrow> script SyncService" where
  "idle_service svc w =
     \<lparr>isSyncing = False, deviceId = Some ''device-1'', databaseService = svc, world = w,
      uploaded = [], journal = []\<rparr>"

section \<open>HealthLogService: encrypted records\<close>

text \<open>
  \<^verbatim>\<open>String.prototype.trim\<close> on the code units of the model: tab, line feed, vertical tab,
  form feed, carriage return, space and no-break space are white space.
\<close>

definition is_white_space :: "char \<Rightarrow> bool" where
  "is_white_space c = ((of_char c :: nat) \<in> set [9, 10, 11, 12, 13, 32, 160])"

definition trim :: "string \<Rightarrow> string" where
  "trim s = rev (dropWhile is_white_space (rev (dropWhile is_white_space s)))"

text \<open>\<^verbatim>\<open>Array.prototype.join\<close> on strings.\<close>

fun join :: "string \<Rightarrow> string list \<Rightarrow> string" where
  "join sep [] = []"
| "join sep [x] = x"
| "join sep (x # y # ys) = x @ sep @ join sep (y # ys)"

text \<open>The decimal text of an array index, as a template literal renders it.\<close>

fun string_of_nat :: "nat \<Rightarrow> string" where
  "string_of_nat n =
     (if n < 10 then [char_of (48 + n)]
      else string_of_nat (n div 10) @ [char_of (48 + n mod 10)])"

text \<open>
  A value as the update guard may meet it in \<^verbatim>\<open>data.id\<close>; \<open>JObject\<close> is any object or
  array.
\<close>

datatype js_value =
  JUndefined | JNull | JBoolean bool | JNumber int | JString string | JObject

fun truthy :: "js_value \<Rightarrow> bool" where
  "truthy JUndefined = False"
| "truthy JNull = False"
| "truthy (JBoolean b) = b"
| "truthy (JNumber n) = (n \<noteq> 0)"
| "truthy (JString s) = (s \<noteq> [])"
| "truthy JObject = True"

fun typeof :: "js_value \<Rightarrow> string" where
  "typeof JUndefined = ''undefined''"
| "typeof JNull = ''object''"
| "typeof (JBoolean b) = ''boolean''"
| "typeof (JNumber n) = ''number''"
| "typeof (JString s) = ''string''"
| "typeof JObject = ''object''"

text \<open>
  The domain record (interface \<^verbatim>\<open>HealthLog\<close>; its \<^verbatim>\<open>id\<close> is written \<open>log_id\<close>). A
  property other than the id may be \<^verbatim>\<open>undefined\<close> at run time (\<^const>\<open>None\<close>), since
  an update may set it so.
\<close>

record HealthLog =
  log_id :: string
  title :: "string option"
  description :: "string option"
  category :: "string option"
  severity :: "int option"
  tags :: "string list option"
  date :: "string option"
  "notes" :: "string option"
  attachments :: "string list option"

text \<open>
  A property of the patch (\<^verbatim>\<open>Partial<CreateHealthLogData>\<close>): not there, there with the
  value \<^verbatim>\<open>undefined\<close>, or there with a value.
\<close>

datatype 'a patch_prop = Absent | Undefined | Value 'a

record UpdateHealthLogData =
  upd_id :: js_value
  upd_title :: "string patch_prop"
  upd_description :: "string patch_prop"
  upd_category :: "string patch_prop"
  upd_severity :: "int patch_prop"
  upd_tags :: "string list patch_prop"
  upd_date :: "string patch_prop"
  upd_notes :: "string patch_prop"
  upd_attachments :: "string list patch_prop"

text \<open>The object spread \<^verbatim>\<open>{...existingLog, ...data}\<close> on one property.\<close>

fun spread :: "'a option \<Rightarrow> 'a patch_prop \<Rightarrow> 'a option" where
  "spread old Absent = old"
| "spread old Undefined = None"
| "spread old (Value v) = Some v"

record HealthLogValidationError =
  field :: string
  message :: string

record HealthLogValidationResult =
  isValid :: bool
  val_errors :: "HealthLogValidationError list"

text \<open>
  The builtins the service calls: the cipher library, \<^verbatim>\<open>JSON.stringify\<close> and
  \<^verbatim>\<open>JSON.parse\<close> on domain records, and \<^verbatim>\<open>new Date(text).getTime()\<close> (\<^const>\<open>None\<close> for
  \<^verbatim>\<open>NaN\<close>).
\<close>

record 'salt runtime =
  cryptojs :: "(char, 'salt) CryptoJS"
  JSON_stringify :: "HealthLog \<Rightarrow> string"
  JSON_parse :: "string \<Rightarrow> thrown + HealthLog"
  Date_getTime :: "string \<Rightarrow> int option"

definition VALID_CATEGORIES :: "string list" where
  "VALID_CATEGORIES = [''symptom'', ''medication'', ''appointment'', ''measurement'', ''other'']"

definition VALID_SEVERITY_LEVELS :: "int list" where
  "VALID_SEVERITY_LEVELS = [1, 2, 3, 4, 5]"

definition validate_tag :: "nat \<times> string \<Rightarrow> HealthLogValidationError list" where
  "validate_tag it =
     (case it of (index, tag) \<Rightarrow>
        if length (trim tag) = 0
        then [\<lparr>field = ''tags'',
               message = ''Tag at index '' @ string_of_nat index @ '' cannot be empty''\<rparr>]
        else if length tag > 50
        then [\<lparr>field = ''tags'',
               message = ''Tag at index '' @ string_of_nat index
                         @ '' must be 50 characters or less''\<rparr>]
        else [])"

definition validate_attachment :: "nat \<times> string \<Rightarrow> HealthLogValidationError list" where
  "validate_attachment it =
     (case it of (index, attachment) \<Rightarrow>
        if length (trim attachment) = 0
        then [\<lparr>field = ''attachments'',
               message = ''Attachment at index '' @ string_of_nat index
                         @ '' cannot be empty''\<rparr>]
        else [])"

text \<open>
  \<^verbatim>\<open>validateHealthLogData\<close>; \<open>now\<close> is \<^verbatim>\<open>new Date().getTime()\<close> at the call. The
  \<^verbatim>\<open>typeof\<close> tests of the source hold by the types of the fields.
\<close>

definition validateHealthLogData ::
  "'salt runtime \<Rightarrow> int \<Rightarrow> HealthLog \<Rightarrow> HealthLogValidationResult" where
  "validateHealthLogData R now data =
     (let e_title =
            (case title data of
               None \<Rightarrow> [\<lparr>field = ''title'', message = ''Title is required and must be a string''\<rparr>]
             | Some t \<Rightarrow>
                 if t = [] then [\<lparr>field = ''title'',
                                  message = ''Title is required and must be a string''\<rparr>]
                 else if length (trim t) = 0
                 then [\<lparr>field = ''title'', message = ''Title cannot be empty''\<rparr>]
                 else if length t > 200
                 then [\<lparr>field = ''title'', message = ''Title must be 200 characters or less''\<rparr>]
                 else []);
          e_description =
            (case description data of
               None \<Rightarrow> [\<lparr>field = ''description'',
                          message = ''Description is required and must be a string''\<rparr>]
             | Some d \<Rightarrow>
                 if d = [] then [\<lparr>field = ''description'',
                                  message = ''Description is required and must be a string''\<rparr>]
                 else if length (trim d) = 0
                 then [\<lparr>field = ''description'', message = ''Description cannot be empty''\<rparr>]
                 else if length d > 2000
                 then [\<lparr>field = ''description'',
                        message = ''Description must be 2000 characters or less''\<rparr>]
                 else []);
          e_category =
            (case category data of
               None \<Rightarrow> [\<lparr>field = ''category'',
                          message = ''Category is required and must be a string''\<rparr>]
             | Some c \<Rightarrow>
                 if c = [] then [\<lparr>field = ''category'',
                                  message = ''Category is required and must be a string''\<rparr>]
                 else if c \<notin> set VALID_CATEGORIES
                 then [\<lparr>field = ''category'',
                        message = ''Category must be one of: '' @ join '', '' VALID_CATEGORIES\<rparr>]
                 else []);
          e_severity =
            (case severity data of
               None \<Rightarrow> []
             | Some v \<Rightarrow>
                 if v \<notin> set VALID_SEVERITY_LEVELS
                 then [\<lparr>field = ''severity'',
                        message = ''Severity must be a number between 1 and 5''\<rparr>]
                 else []);
          e_tags =
            (case tags data of
               None \<Rightarrow> [\<lparr>field = ''tags'', message = ''Tags must be an array''\<rparr>]
             | Some ts \<Rightarrow> concat (map validate_tag (enumerate 0 ts)));
          e_date =
            (case date data of
               None \<Rightarrow> [\<lparr>field = ''date'', message = ''Date is required and must be a string''\<rparr>]
             | Some d \<Rightarrow>
                 if d = [] then [\<lparr>field = ''date'',
                                  message = ''Date is required and must be a string''\<rparr>]
                 else (case Date_getTime R d of
                         None \<Rightarrow> [\<lparr>field = ''date'',
                                    message = ''Date must be a valid ISO date string''\<rparr>]
                       | Some t \<Rightarrow>
                           if t > now
                           then [\<lparr>field = ''date'', message = ''Date cannot be in the future''\<rparr>]
                           else []));
          e_notes =
            (case notes data of
               None \<Rightarrow> []
             | Some n \<Rightarrow>
                 if length n > 5000
                 then [\<lparr>field = ''notes'', message = ''Notes must be 5000 characters or less''\<rparr>]
                 else []);
          e_attachments =
            (case attachments data of
               None \<Rightarrow> []
             | Some as \<Rightarrow> concat (map validate_attachment (enumerate 0 as)));
          errs = e_title @ e_description @ e_category @ e_severity @ e_tags @ e_date
                 @ e_notes @ e_attachments
      in \<lparr>isValid = (length errs = 0), val_errors = errs\<rparr>)"


text \<open>
  Reading a property of \<^verbatim>\<open>undefined\<close> throws a \<^verbatim>\<open>TypeError\<close>; the text of its message
  is the engine's.
\<close>

definition TypeError_undefined :: "string \<Rightarrow> thrown" where
  "TypeError_undefined p =
     Error (''Cannot read properties of undefined (reading '' @ [CHR 0x27] @ p @ [CHR 0x27]
            @ '')'')"

text \<open>\<^verbatim>\<open>result.error || fallback\<close>\<close>

definition error_or :: "string option \<Rightarrow> string \<Rightarrow> string" where
  "error_or e fallback = (case e of None \<Rightarrow> fallback | Some m \<Rightarrow> if m = [] then fallback else m)"

record HealthLogService =
  encryptionKey :: string

definition getHealthLog ::
  "'salt runtime \<Rightarrow> HealthLogService \<Rightarrow> stmt_run \<Rightarrow> int \<Rightarrow> DatabaseService
     \<Rightarrow> thrown + HealthLog option" where
  "getHealthLog R this run healthLogId dbs =
     (let rethrow = (\<lambda>err. Inl (Error (''Failed to retrieve health log: ''
                                          @ message_or_unknown err)))
      in case getHealthLogById run healthLogId dbs of
           Inl err \<Rightarrow> rethrow err
         | Inr None \<Rightarrow> Inr None
         | Inr (Some encryptedLog) \<Rightarrow>
             (let decryptionResult =
                    decrypt (cryptojs R) (encrypted_data encryptedLog) (encryptionKey this)
              in if \<not> dec_success decryptionResult
                 then rethrow (Error (error_or (dec_error decryptionResult)
                                               ''Decryption failed''))
                 else (case JSON_parse R (decryptedData decryptionResult) of
                         Inl err \<Rightarrow> rethrow err
                       | Inr healthLog \<Rightarrow> Inr (Some healthLog))))"

text \<open>The guard on \<^verbatim>\<open>data.id\<close> at the head of the update.\<close>

definition id_missing :: "js_value \<Rightarrow> bool" where
  "id_missing v =
     (\<not> truthy v \<or> typeof v \<noteq> ''string''
      \<or> (case v of JString s \<Rightarrow> length (trim s) = 0 | _ \<Rightarrow> False))"

text \<open>\<^verbatim>\<open>{...existingLog, ...data, id: existingLog.id}\<close>\<close>

definition merge_update :: "HealthLog \<Rightarrow> UpdateHealthLogData \<Rightarrow> HealthLog" where
  "merge_update existingLog data =
     \<lparr>log_id = log_id existingLog,
      title = spread (title existingLog) (upd_title data),
      description = spread (description existingLog) (upd_description data),
      category = spread (category existingLog) (upd_category data),
      severity = spread (severity existingLog) (upd_severity data),
      tags = spread (tags existingLog) (upd_tags data),
      date = spread (date existingLog) (upd_date data),
      notes = spread (notes existingLog) (upd_notes data),
      attachments = spread (attachments existingLog) (upd_attachments data)\<rparr>"

text \<open>
  The object literal \<^verbatim>\<open>sanitizedLog\<close>: its properties are evaluated in order, and the
  first read of a property of \<^verbatim>\<open>undefined\<close> throws.
\<close>

definition sanitize_update :: "HealthLog \<Rightarrow> thrown + HealthLog" where
  "sanitize_update updatedLog =
     (case title updatedLog of
        None \<Rightarrow> Inl (TypeError_undefined ''trim'')
      | Some t \<Rightarrow>
          (case description updatedLog of
             None \<Rightarrow> Inl (TypeError_undefined ''trim'')
           | Some d \<Rightarrow>
               (case tags updatedLog of
                  None \<Rightarrow> Inl (TypeError_undefined ''map'')
                | Some ts \<Rightarrow>
                    Inr (updatedLog
                          \<lparr>title := Some (trim t),
                           description := Some (trim d),
                           tags := Some (filter (\<lambda>tag. length tag > 0) (map trim ts)),
                           notes := map_option trim (notes updatedLog),
                           attachments :=
                             map_option (\<lambda>as. filter (\<lambda>a. length a > 0) (map trim as))
                                        (attachments updatedLog)\<rparr>))))"

text \<open>
  What one call of the update meets outside: the driver's outcomes for the read and for
  the write, the randomness of the cipher, and the clock of the validation.
\<close>

record 'salt update_env =
  read_run :: stmt_run
  write_run :: stmt_run
  salt :: 'salt
  clock :: int

definition HealthLogService_updateHealthLog ::
  "'salt runtime \<Rightarrow> HealthLogService \<Rightarrow> 'salt update_env \<Rightarrow> int \<Rightarrow> UpdateHealthLogData
     \<Rightarrow> DatabaseService \<Rightarrow> (thrown + HealthLog) \<times> DatabaseService" where
  "HealthLogService_updateHealthLog R this env healthLogId data dbs =
     (if id_missing (upd_id data)
      then (Inl (Error ''Validation failed: ID is required for updates and must be a string''),
            dbs)
      else
        (let rethrow = (\<lambda>err. (Inl (Error (''Failed to update health log: ''
                                              @ message_or_unknown err)), dbs))
         in case getHealthLog R this (read_run env) healthLogId dbs of
              Inl err \<Rightarrow> rethrow err
            | Inr None \<Rightarrow> rethrow (Error ''Health log not found'')
            | Inr (Some existingLog) \<Rightarrow>
                (case sanitize_update (merge_update existingLog data) of
                   Inl err \<Rightarrow> rethrow err
                 | Inr sanitizedLog \<Rightarrow>
                     (let completeValidation =
                            validateHealthLogData R (clock env) sanitizedLog
                      in if \<not> isValid completeValidation
                         then rethrow (Error (''Validation failed: '' @
                                join '', '' (map message (val_errors completeValidation))))
                         else
                           (let encryptionResult =
                                  encrypt (cryptojs R) (salt env)
                                    (JSON_stringify R sanitizedLog) (encryptionKey this)
                            in if \<not> enc_success encryptionResult
                               then rethrow (Error (error_or (enc_error encryptionResult)
                                                             ''Encryption failed''))
                               else
                                 (case updateHealthLog (write_run env) healthLogId
                                         (encryptedData encryptionResult) dbs of
                                    (Inl err, dbs') \<Rightarrow> rethrow err
                                  | (Inr u, dbs') \<Rightarrow> (Inr sanitizedLog, dbs')))))))"

definition HealthLogService_deleteHealthLog ::
  "'salt runtime \<Rightarrow> HealthLogService \<Rightarrow> stmt_run \<Rightarrow> stmt_run \<Rightarrow> int \<Rightarrow> DatabaseService
     \<Rightarrow> (thrown + unit) \<times> DatabaseService" where
  "HealthLogService_deleteHealthLog R this read_r write_r healthLogId dbs =
     (let rethrow = (\<lambda>err. (Inl (Error (''Failed to delete health log: ''
                                           @ message_or_unknown err)), dbs))
      in case getHealthLog R this read_r healthLogId dbs of
           Inl err \<Rightarrow> rethrow err
         | Inr None \<Rightarrow> rethrow (Error ''Health log not found'')
         | Inr (Some existingLog) \<Rightarrow>
             (case deleteHealthLog write_r healthLogId dbs of
                (Inl err, dbs') \<Rightarrow> rethrow err
              | (Inr u, dbs') \<Rightarrow> (Inr (), dbs')))"


text \<open>
  A stand-in runtime for running the service on concrete inputs: the small cipher above,
  \<^verbatim>\<open>JSON\<close> on the two records used below (with the texts \<^verbatim>\<open>JSON.stringify\<close> gives for
  them) and the time of the one date used.
\<close>

definition demo_log :: HealthLog where
  "demo_log =
     \<lparr>log_id = ''health_log_1'', title = Some ''Headache'', description = Some ''Mild'',
      category = Some ''symptom'', severity = None, tags = Some [],
      date = Some ''2024-01-15'', notes = None, attachments = None\<rparr>"

definition demo_log_json :: string where
  "demo_log_json = ''{\"id\":\"health_log_1\",\"title\":\"Headache\",\"description\":\"Mild\",\"category\":\"symptom\",\"tags\":[],\"date\":\"2024-01-15\"}''"

definition demo_updated_json :: string where
  "demo_updated_json = ''{\"id\":\"health_log_1\",\"title\":\"Updated\",\"description\":\"Mild\",\"category\":\"symptom\",\"tags\":[],\"date\":\"2024-01-15\"}''"

definition demo_runtime :: "char runtime" where
  "demo_runtime =
     \<lparr>cryptojs = toy_AES,
      JSON_stringify = (\<lambda>log. if log = demo_log then demo_log_json
                              else if log = demo_log\<lparr>title := Some ''Updated''\<rparr>
                              then demo_updated_json else ''{}''),
      JSON_parse = (\<lambda>text. if text = demo_log_json then Inr demo_log
                            else if text = demo_updated_json
                            then Inr (demo_log\<lparr>title := Some ''Updated''\<rparr>)
                            else Inl (Error ''Unexpected token'')),
      Date_getTime = (\<lambda>text. if text = ''2024-01-15'' then Some 1705276800000 else None)\<rparr>"

text \<open>A store holding that record, encrypted under the key \<^verbatim>\<open>k1\<close>, as row 1 of owner 7.\<close>

definition demo_store :: DatabaseService where
  "demo_store =
     \<lparr>db = Some \<lparr>health_logs =
                    [\<lparr>id' = 1, user_id = 7,
                      encrypted_data = CHR ''s'' # rev ''k1'' @ demo_log_json,
                      created_at = 100, updated_at = 100,
                      synced_at = None, cloud_id = None\<rparr>],
                 health_logs_seq = 1\<rparr>\<rparr>"

definition demo_env :: "char update_env" where
  "demo_env = \<lparr>read_run = Runs 200, write_run = Runs 200, salt = CHR ''t'',
               clock = 1767225600000\<rparr>"



text \<open>
  Two patches for the stored demo record: one carrying its id, one carrying another id.
\<close>

definition matching_patch :: UpdateHealthLogData where
  "matching_patch =
     \<lparr>upd_id = JString ''health_log_1'', upd_title = Value ''  Updated '',
      upd_description = Absent, upd_category = Absent, upd_severity = Absent,
      upd_tags = Absent, upd_date = Absent, upd_notes = Absent, upd_attachments = Absent\<rparr>"

definition mismatched_patch :: UpdateHealthLogData where
  "mismatched_patch = matching_patch\<lparr>upd_id := JString ''another-id''\<rparr>"

text \<open>A sequence of store calls: two inserts, a mark, an update and a rejected delete.\<close>

definition demo_calls :: "store_call list" where
  "demo_calls =
     [CreateHealthLog (Runs 5) 7 ''c1'', CreateHealthLog (Runs 6) 7 ''c2'',
      MarkHealthLogAsSynced (Runs 9) 1 ''cloud-id-1'', UpdateHealthLog (Runs 10) 1 ''c1b'',
      DeleteHealthLog (Rejects ''Error: database is locked'') 2]"

text \<open>
  Scenarios for running the sync engine: two unsynced records of owner 7; a world in which
  every call succeeds; one in which the second upload is refused; one in which the
  connectivity probe fails twice; one in which the driver rejects the first statement.
\<close>

definition first_log :: HealthLogRecord where
  "first_log =
     \<lparr>id' = 1, user_id = 7, encrypted_data = ''c1'', created_at = 10, updated_at = 10,
      synced_at = None, cloud_id = None\<rparr>"

definition second_log :: HealthLogRecord where
  "second_log =
     \<lparr>id' = 2, user_id = 7, encrypted_data = ''c2'', created_at = 20, updated_at = 20,
      synced_at = None, cloud_id = None\<rparr>"

definition two_logs :: "HealthLogRecord list" where
  "two_logs = [first_log, second_log]"

definition healthy :: script where
  "healthy = \<lparr>probes = [], users = [], inserts = [], runs = []\<rparr>"

definition two_log_store :: DatabaseService where
  "two_log_store = \<lparr>db = Some \<lparr>health_logs = two_logs, health_logs_seq = 2\<rparr>\<rparr>"

definition second_upload_fails :: script where
  "second_upload_fails =
     \<lparr>probes = [], users = [],
      inserts = [Inr \<lparr>data_id = Some ''cloud-id-1'', insert_error = None\<rparr>,
                 Inr \<lparr>data_id = None, insert_error = Some ''Network error''\<rparr>],
      runs = []\<rparr>"

definition empty_result :: SyncResult where
  "empty_result = \<lparr>success = True, syncedCount = 0, failedCount = 0, errors = []\<rparr>"

definition offline_twice :: script where
  "offline_twice =
     \<lparr>probes = [Inr (Some ''Network error''), Inr (Some ''Network error'')],
      users = [], inserts = [], runs = []\<rparr>"

definition mark_rejected :: script where
  "mark_rejected = \<lparr>probes = [], users = [], inserts = [], runs = [Rejects ''Error: disk I/O error'']\<rparr>"

section \<open>Properties\<close>

declare retry_from.simps [simp del]
declare isRetryableError.simps [simp del]

subsection \<open>Retryability (C8)\<close>

lemma str_includes_iff: "str_includes h n \<longleftrightarrow> (\<exists>pre post. h = pre @ n @ post)"
proof (induction h)
  case Nil
  then show ?case by auto
next
  case (Cons c cs)
  show ?case
  proof
    assume "str_includes (c # cs) n"
    then consider "prefix n (c # cs)" | "str_includes cs n" by auto
    then show "\<exists>pre post. c # cs = pre @ n @ post"
    proof cases
      case 1
      then obtain post where "c # cs = n @ post" by (auto simp: prefix_def)
      then have "c # cs = [] @ n @ post" by simp
      then show ?thesis by blast
    next
      case 2
      with Cons.IH obtain pre post where "cs = pre @ n @ post" by blast
      then have "c # cs = (c # pre) @ n @ post" by simp
      then show ?thesis by blast
    qed
  next
    assume "\<exists>pre post. c # cs = pre @ n @ post"
    then obtain pre post where e: "c # cs = pre @ n @ post" by blast
    show "str_includes (c # cs) n"
    proof (cases pre)
      case Nil
      with e have "prefix n (c # cs)" by (simp add: prefix_def)
      then show ?thesis by simp
    next
      case (Cons p ps)
      with e have "cs = ps @ n @ post" by simp
      with Cons.IH have "str_includes cs n" by blast
      then show ?thesis by simp
    qed
  qed
qed

text \<open>
  C8, as the code has it: \<^verbatim>\<open>isRetryableError\<close> is true exactly for an \<^verbatim>\<open>Error\<close> whose
  lower-cased message contains one of the ten markers \<^verbatim>\<open>network\<close>, \<^verbatim>\<open>timeout\<close>,
  \<^verbatim>\<open>connection\<close>, \<^verbatim>\<open>fetch\<close>, \<^verbatim>\<open>500\<close>, \<^verbatim>\<open>502\<close>, \<^verbatim>\<open>503\<close>, \<^verbatim>\<open>504\<close>, \<^verbatim>\<open>rate limit\<close>,
  \<^verbatim>\<open>429\<close> as a substring, and false for every other error and for every value that is
  not an \<^verbatim>\<open>Error\<close>. Of the 5xx status codes only those four are markers.
\<close>

theorem isRetryableError_markers:
  "isRetryableError e =
     (case e of
        NonError \<Rightarrow> False
      | Error msg \<Rightarrow>
          list_ex (\<lambda>marker. \<exists>pre post. toLowerCase msg = pre @ marker @ post)
            [''network'', ''timeout'', ''connection'', ''fetch'',
             ''500'', ''502'', ''503'', ''504'', ''rate limit'', ''429''])"
  by (cases e) (auto simp: isRetryableError.simps Let_def str_includes_iff)

text \<open>
  The rule at work: a rate-limit message is retryable because its lower-cased text
  contains the marker \<^verbatim>\<open>rate limit\<close>.
\<close>

theorem isRetryableError_markers_witness:
  "isRetryableError (Error ''Rate limit exceeded'')"
proof -
  have "toLowerCase ''Rate limit exceeded'' = [] @ ''rate limit'' @ '' exceeded''"
    by code_simp
  then have "\<exists>pre post. toLowerCase ''Rate limit exceeded'' = pre @ ''rate limit'' @ post"
    by blast
  then show ?thesis
    using isRetryableError_markers [of "Error ''Rate limit exceeded''"] by simp
qed

text \<open>
  C8 as stated fails: the message \<^verbatim>\<open>HTTP 501 Not Implemented\<close> carries the 5xx status code
  501, and \<^verbatim>\<open>isRetryableError\<close> is false for it.
\<close>

theorem isRetryableError_501_counterexample:
  "str_includes (toLowerCase ''HTTP 501 Not Implemented'') ''501''
   \<and> \<not> isRetryableError (Error ''HTTP 501 Not Implemented'')"
  by code_simp

subsection \<open>What the steps of a sync leave unchanged\<close>


lemma checkConnectivity_frame:
  "checkConnectivity P s = (b, s') \<Longrightarrow>
     isSyncing s' = isSyncing s \<and> deviceId s' = deviceId s \<and> uploaded s' = uploaded s
     \<and> databaseService s' = databaseService s \<and> journal s' = journal s"
  by (auto simp: checkConnectivity_def split: prod.splits sum.splits)

lemma getSupabaseUser_frame:
  "getSupabaseUser P s = (b, s') \<Longrightarrow>
     isSyncing s' = isSyncing s \<and> deviceId s' = deviceId s \<and> uploaded s' = uploaded s
     \<and> databaseService s' = databaseService s \<and> journal s' = journal s"
  by (auto simp: getSupabaseUser_def split: prod.splits sum.splits option.splits)

lemma fetch_unsynced_frame:
  "fetch_unsynced P u s = (b, s') \<Longrightarrow>
     isSyncing s' = isSyncing s \<and> deviceId s' = deviceId s \<and> uploaded s' = uploaded s
     \<and> databaseService s' = databaseService s \<and> journal s' = journal s"
  by (auto simp: fetch_unsynced_def split: prod.splits)

lemma uploadHealthLog_frame:
  "uploadHealthLog P log u s = (b, s') \<Longrightarrow>
     isSyncing s' = isSyncing s \<and> deviceId s' = deviceId s
     \<and> uploaded s' = uploaded s @ [row_of s log u]
     \<and> databaseService s' = databaseService s \<and> journal s' = journal s"
  by (auto simp: uploadHealthLog_def Let_def split: prod.splits sum.splits option.splits if_splits)

lemma mark_synced_frame:
  "mark_synced P i c s = (b, s') \<Longrightarrow>
     isSyncing s' = isSyncing s \<and> deviceId s' = deviceId s \<and> uploaded s' = uploaded s
     \<and> journal s' = journal s"
  by (auto simp: mark_synced_def split: prod.splits)

lemma mark_synced_fails_db:
  "mark_synced P i c s = (Inl err, s') \<Longrightarrow> databaseService s' = databaseService s"
  by (auto simp: mark_synced_def markHealthLogAsSynced_def split: prod.splits option.splits stmt_run.splits)

lemma row_of_cong: "deviceId s' = deviceId s \<Longrightarrow> row_of s' = row_of s"
  by (auto simp: row_of_def fun_eq_iff)

lemma sync_one_frame:
  "sync_one P u log (r, s) = (r', s') \<Longrightarrow>
     isSyncing s' = isSyncing s \<and> deviceId s' = deviceId s
     \<and> uploaded s' = uploaded s @ [row_of s log u] \<and> journal s' = journal s"
  by (auto simp: sync_one_def split: prod.splits sum.splits dest!: uploadHealthLog_frame mark_synced_frame)


lemma sync_one_cases:
  "sync_one P u log (r, s) =
     (case uploadHealthLog P log u s of
        (Inl err, s1) \<Rightarrow> (record_failure log err r, s1)
      | (Inr cloudId, s1) \<Rightarrow>
          (case mark_synced P (id' log) cloudId s1 of
             (Inl err, s2) \<Rightarrow> (record_failure log err r, s2)
           | (Inr u, s2) \<Rightarrow> (r\<lparr>syncedCount := syncedCount r + 1\<rparr>, s2)))"
  by (simp add: sync_one_def)

lemma sync_one_counts:
  assumes "sync_one P u log (r, s) = (r', s')"
  shows "r' = r\<lparr>syncedCount := syncedCount r + 1\<rparr> \<or> (\<exists>err. r' = record_failure log err r)"
proof -
  obtain up s1 where up: "uploadHealthLog P log u s = (up, s1)"
    by (cases "uploadHealthLog P log u s")
  show ?thesis
  proof (cases up)
    case (Inl err)
    with assms up have "r' = record_failure log err r" by (simp add: sync_one_cases)
    then show ?thesis by blast
  next
    case (Inr cloudId)
    obtain mk s2 where mk: "mark_synced P (id' log) cloudId s1 = (mk, s2)"
      by (cases "mark_synced P (id' log) cloudId s1")
    show ?thesis
    proof (cases mk)
      case (Inl err)
      with assms up Inr mk have "r' = record_failure log err r" by (simp add: sync_one_cases)
      then show ?thesis by blast
    next
      case (Inr u)
      with assms up \<open>up = Inr cloudId\<close> mk have "r' = r\<lparr>syncedCount := syncedCount r + 1\<rparr>"
        by (simp add: sync_one_cases)
      then show ?thesis by blast
    qed
  qed
qed

lemma sync_loop_frame:
  "sync_loop P u logs (r, s) = (r', s') \<Longrightarrow>
     isSyncing s' = isSyncing s \<and> deviceId s' = deviceId s
     \<and> uploaded s' = uploaded s @ map (\<lambda>log. row_of s log u) logs
     \<and> journal s' = journal s"
proof (induction logs arbitrary: r s)
  case Nil
  then show ?case by simp
next
  case (Cons log logs)
  obtain r1 s1 where one: "sync_one P u log (r, s) = (r1, s1)"
    by (cases "sync_one P u log (r, s)")
  from Cons.prems one have rest: "sync_loop P u logs (r1, s1) = (r', s')" by simp
  note f1 = sync_one_frame [OF one]
  note f2 = Cons.IH [OF rest]
  from f1 have ro: "row_of s1 = row_of s" by (intro row_of_cong) simp
  have "isSyncing s' = isSyncing s" using f1 f2 by simp
  moreover have "deviceId s' = deviceId s" using f1 f2 by simp
  moreover have "journal s' = journal s" using f1 f2 by simp
  moreover have "uploaded s' = uploaded s @ map (\<lambda>log. row_of s log u) (log # logs)"
  proof -
    from f2 have "uploaded s' = uploaded s1 @ map (\<lambda>log. row_of s1 log u) logs" by simp
    also have "uploaded s1 = uploaded s @ [row_of s log u]" using f1 by simp
    finally show ?thesis by (simp add: ro)
  qed
  ultimately show ?case by blast
qed

lemma retryable_of_message:
  "isRetryableError (Error (message_or_unknown err)) = isRetryableError err"
proof (cases err)
  case (Error m)
  then show ?thesis by simp
next
  case NonError
  have "isRetryableError (Error ''Unknown error'') = False" by code_simp
  with NonError show ?thesis by (simp add: isRetryableError.simps(2))
qed

lemma sync_loop_counts:
  "sync_loop P u logs (r, s) = (r', s') \<Longrightarrow>
     syncedCount r' + failedCount r' = syncedCount r + failedCount r + length logs
     \<and> success r' = success r
     \<and> (\<exists>new. errors r' = errors r @ new
            \<and> failedCount r' = failedCount r + length new
            \<and> subseq (map localId new) (map id' logs)
            \<and> list_all (\<lambda>e. retryable e = isRetryableError (Error (error e))) new)"
proof (induction logs arbitrary: r s)
  case Nil
  then show ?case by simp
next
  case (Cons log logs)
  obtain r1 s1 where one: "sync_one P u log (r, s) = (r1, s1)"
    by (cases "sync_one P u log (r, s)")
  from Cons.prems one have rest: "sync_loop P u logs (r1, s1) = (r', s')" by simp
  from Cons.IH [OF rest] obtain new where
    sum: "syncedCount r' + failedCount r' = syncedCount r1 + failedCount r1 + length logs"
    and succ: "success r' = success r1"
    and errs: "errors r' = errors r1 @ new"
    and fc: "failedCount r' = failedCount r1 + length new"
    and sub: "subseq (map localId new) (map id' logs)"
    and rt: "list_all (\<lambda>e. retryable e = isRetryableError (Error (error e))) new"
    by blast
  from sync_one_counts [OF one] show ?case
  proof
    assume r1: "r1 = r\<lparr>syncedCount := syncedCount r + 1\<rparr>"
    have "errors r' = errors r @ new" using errs r1 by simp
    moreover have "failedCount r' = failedCount r + length new" using fc r1 by simp
    moreover have "subseq (map localId new) (map id' (log # logs))"
      using sub by (simp add: list_emb_Cons)
    moreover have "syncedCount r' + failedCount r' = syncedCount r + failedCount r + length (log # logs)"
      using sum r1 by simp
    moreover have "success r' = success r" using succ r1 by simp
    ultimately show ?thesis using rt by blast
  next
    assume "\<exists>err. r1 = record_failure log err r"
    then obtain err where r1: "r1 = record_failure log err r" ..
    let ?e = "\<lparr>localId = id' log, error = message_or_unknown err,
                retryable = isRetryableError err\<rparr>"
    have "errors r' = errors r @ (?e # new)" using errs r1 by (simp add: record_failure_def)
    moreover have "failedCount r' = failedCount r + length (?e # new)"
      using fc r1 by (simp add: record_failure_def)
    moreover have "subseq (map localId (?e # new)) (map id' (log # logs))"
      using sub by simp
    moreover have "list_all (\<lambda>e. retryable e = isRetryableError (Error (error e))) (?e # new)"
      using rt by (simp add: retryable_of_message)
    moreover have "syncedCount r' + failedCount r' = syncedCount r + failedCount r + length (log # logs)"
      using sum r1 by (simp add: record_failure_def)
    moreover have "success r' = success r" using succ r1 by (simp add: record_failure_def)
    ultimately show ?thesis by blast
  qed
qed


lemma sync_try_frame:
  assumes "sync_try P u s = (r, s')"
  shows "isSyncing s' = isSyncing s \<and> deviceId s' = deviceId s \<and> journal s' = journal s"
proof -
  obtain b s1 where c: "checkConnectivity P s = (b, s1)" by (cases "checkConnectivity P s")
  note f1 = checkConnectivity_frame [OF c]
  show ?thesis
  proof (cases b)
    case False
    with assms c have "s' = s1" by (simp add: sync_try_def)
    with f1 show ?thesis by simp
  next
    case True
    obtain v s2 where g: "getSupabaseUser P s1 = (v, s2)" by (cases "getSupabaseUser P s1")
    note f2 = getSupabaseUser_frame [OF g]
    show ?thesis
    proof (cases v)
      case None
      with assms c True g have "s' = s2" by (simp add: sync_try_def)
      with f1 f2 show ?thesis by simp
    next
      case (Some uid)
      obtain q s3 where f: "fetch_unsynced P u s2 = (q, s3)" by (cases "fetch_unsynced P u s2")
      note f3 = fetch_unsynced_frame [OF f]
      show ?thesis
      proof (cases q)
        case (Inl err)
        with assms c True g Some f have "s' = s3" by (simp add: sync_try_def)
        with f1 f2 f3 show ?thesis by simp
      next
        case (Inr logs)
        show ?thesis
        proof (cases "logs = []")
          case True
          with assms c \<open>b\<close> g Some f Inr have "s' = s3" by (simp add: sync_try_def)
          with f1 f2 f3 show ?thesis by simp
        next
          case False
          obtain r4 s4 where l: "sync_loop P uid logs
              (\<lparr>success = True, syncedCount = 0, failedCount = 0, errors = []\<rparr>, s3) = (r4, s4)"
            by (cases "sync_loop P uid logs
              (\<lparr>success = True, syncedCount = 0, failedCount = 0, errors = []\<rparr>, s3)")
          from assms c \<open>b\<close> g Some f Inr False l have "s' = s4" by (simp add: sync_try_def)
          with f1 f2 f3 sync_loop_frame [OF l] show ?thesis by simp
        qed
      qed
    qed
  qed
qed

lemma syncHealthLogs_throws_Error:
  "syncHealthLogs P u s = (Inl err, s') \<Longrightarrow> \<exists>m. err = Error m"
  by (auto simp: syncHealthLogs_def split: if_splits prod.splits sum.splits)

lemma syncHealthLogs_journal:
  assumes "syncHealthLogs P u s = (r, s')"
  shows "journal s' = journal s"
proof (cases "isSyncing s \<or> not_initialized s")
  case True
  with assms have "s' = s" by (auto simp: syncHealthLogs_def split: if_splits)
  then show ?thesis by simp
next
  case False
  obtain r1 s1 where t: "sync_try P u (s\<lparr>isSyncing := True\<rparr>) = (r1, s1)"
    by (cases "sync_try P u (s\<lparr>isSyncing := True\<rparr>)")
  from assms False t have "s' = s1\<lparr>isSyncing := False\<rparr>"
    by (cases r1) (simp_all add: syncHealthLogs_def)
  with sync_try_frame [OF t] show ?thesis by simp
qed


lemma retry_from_done:
  "m < a \<Longrightarrow> retry_from P u m a le s =
     (Inl (case le of Some e \<Rightarrow> e | None \<Rightarrow> Error ''Max retries exceeded''), s)"
  by (subst retry_from.simps) simp

lemma retry_from_success:
  assumes "a \<le> m" "syncHealthLogs P u s = (Inr r, s1)"
  shows "retry_from P u m a le s = (Inr r, s1\<lparr>journal := journal s1 @ [Attempt (Inr r)]\<rparr>)"
  using assms by (subst retry_from.simps) simp

lemma retry_from_failure:
  assumes "a \<le> m" "syncHealthLogs P u s = (Inl (Error msg), s1)"
  shows "retry_from P u m a le s =
     retry_from P u m (a + 1) (Some (Error msg))
       (if a < m
        then s1\<lparr>journal := journal s1 @ [Attempt (Inl (Error msg)),
                                            Slept (2 ^ nat (a - 1) * 1000)]\<rparr>
        else s1\<lparr>journal := journal s1 @ [Attempt (Inl (Error msg))]\<rparr>)"
  using assms by (subst retry_from.simps) (simp add: Let_def)

lemma retry_from_journal:
  assumes "1 \<le> a" "a \<le> m" "retry_from P u m a le s = (res, s')"
  shows "\<exists>errs final.
           journal s' = journal s
             @ concat (map (\<lambda>(i, e). [Attempt (Inl e), Slept (2 ^ i * 1000)])
                           (enumerate (nat (a - 1)) errs))
             @ [Attempt final]
         \<and> a + int (length errs) \<le> m
         \<and> (case final of Inr r \<Rightarrow> res = Inr r
             | Inl e \<Rightarrow> a + int (length errs) = m \<and> res = Inl e)"
  using assms
proof (induction "nat (m - a)" arbitrary: a le s)
  case 0
  then have am: "a = m" by simp
  obtain out s1 where sy: "syncHealthLogs P u s = (out, s1)"
    by (cases "syncHealthLogs P u s")
  note j1 = syncHealthLogs_journal [OF sy]
  show ?case
  proof (cases out)
    case (Inr r)
    with sy have sy': "syncHealthLogs P u s = (Inr r, s1)" by simp
    from retry_from_success [OF "0.prems"(2) sy', of le] "0.prems"(3)
    have "res = Inr r" "s' = s1\<lparr>journal := journal s1 @ [Attempt (Inr r)]\<rparr>"
      by simp_all
    with j1 "0.prems" have
      "journal s' = journal s @ concat (map (\<lambda>(i, e). [Attempt (Inl e), Slept (2 ^ i * 1000)])
                           (enumerate (nat (a - 1)) [])) @ [Attempt (Inr r)]
       \<and> a + int (length ([]::thrown list)) \<le> m
       \<and> (case (Inr r :: thrown + SyncResult) of Inr r \<Rightarrow> res = Inr r
             | Inl e \<Rightarrow> a + int (length ([]::thrown list)) = m \<and> res = Inl e)"
      by simp
    then show ?thesis by blast
  next
    case (Inl err)
    with sy syncHealthLogs_throws_Error obtain msg where err: "err = Error msg" by blast
    from sy Inl err have sy': "syncHealthLogs P u s = (Inl (Error msg), s1)" by simp
    from retry_from_failure [OF "0.prems"(2) sy', of le] am have
      "retry_from P u m a le s =
         retry_from P u m (a + 1) (Some (Error msg))
           (s1\<lparr>journal := journal s1 @ [Attempt (Inl (Error msg))]\<rparr>)"
      by simp
    also have "\<dots> = (Inl (Error msg), s1\<lparr>journal := journal s1 @ [Attempt (Inl (Error msg))]\<rparr>)"
      using am by (simp add: retry_from_done)
    finally have "res = Inl (Error msg)"
      "s' = s1\<lparr>journal := journal s1 @ [Attempt (Inl (Error msg))]\<rparr>"
      using "0.prems" by simp_all
    with j1 am have
      "journal s' = journal s @ concat (map (\<lambda>(i, e). [Attempt (Inl e), Slept (2 ^ i * 1000)])
                           (enumerate (nat (a - 1)) [])) @ [Attempt (Inl (Error msg))]
       \<and> a + int (length ([]::thrown list)) \<le> m
       \<and> (case (Inl (Error msg) :: thrown + SyncResult) of Inr r \<Rightarrow> res = Inr r
             | Inl e \<Rightarrow> a + int (length ([]::thrown list)) = m \<and> res = Inl e)"
      by simp
    then show ?thesis by blast
  qed
next
  case (Suc n)
  then have am: "a < m" by simp
  obtain out s1 where sy: "syncHealthLogs P u s = (out, s1)"
    by (cases "syncHealthLogs P u s")
  note j1 = syncHealthLogs_journal [OF sy]
  show ?case
  proof (cases out)
    case (Inr r)
    with sy have sy': "syncHealthLogs P u s = (Inr r, s1)" by simp
    from retry_from_success [OF Suc.prems(2) sy', of le] Suc.prems(3)
    have "res = Inr r" "s' = s1\<lparr>journal := journal s1 @ [Attempt (Inr r)]\<rparr>"
      by simp_all
    with j1 Suc.prems have
      "journal s' = journal s @ concat (map (\<lambda>(i, e). [Attempt (Inl e), Slept (2 ^ i * 1000)])
                           (enumerate (nat (a - 1)) [])) @ [Attempt (Inr r)]
       \<and> a + int (length ([]::thrown list)) \<le> m
       \<and> (case (Inr r :: thrown + SyncResult) of Inr r \<Rightarrow> res = Inr r
             | Inl e \<Rightarrow> a + int (length ([]::thrown list)) = m \<and> res = Inl e)"
      by simp
    then show ?thesis by blast
  next
    case (Inl err)
    with sy syncHealthLogs_throws_Error obtain msg where err: "err = Error msg" by blast
    let ?s3 = "s1\<lparr>journal := journal s1 @ [Attempt (Inl (Error msg)),
                                            Slept (2 ^ nat (a - 1) * 1000)]\<rparr>"
    from sy Inl err have sy': "syncHealthLogs P u s = (Inl (Error msg), s1)" by simp
    from retry_from_failure [OF Suc.prems(2) sy', of le] am have
      "retry_from P u m a le s = retry_from P u m (a + 1) (Some (Error msg)) ?s3"
      by simp
    with Suc.prems have rec: "retry_from P u m (a + 1) (Some (Error msg)) ?s3 = (res, s')"
      by simp
    have n: "n = nat (m - (a + 1))" using Suc.hyps(2) by simp
    from Suc.hyps(1) [OF n _ _ rec] am Suc.prems(1)
    obtain errs final where
      j: "journal s' = journal ?s3
             @ concat (map (\<lambda>(i, e). [Attempt (Inl e), Slept (2 ^ i * 1000)])
                           (enumerate (nat (a + 1 - 1)) errs))
             @ [Attempt final]"
      and le: "a + 1 + int (length errs) \<le> m"
      and fin: "(case final of Inr r \<Rightarrow> res = Inr r
             | Inl e \<Rightarrow> a + 1 + int (length errs) = m \<and> res = Inl e)"
      by auto
    have suc: "Suc (nat (a - 1)) = nat a" using Suc.prems(1) by simp
    have "journal s' = journal s
             @ concat (map (\<lambda>(i, e). [Attempt (Inl e), Slept (2 ^ i * 1000)])
                           (enumerate (nat (a - 1)) (Error msg # errs)))
             @ [Attempt final]"
      using j j1 by (simp add: suc)
    moreover have "a + int (length (Error msg # errs)) \<le> m" using le by simp
    moreover have "(case final of Inr r \<Rightarrow> res = Inr r
             | Inl e \<Rightarrow> a + int (length (Error msg # errs)) = m \<and> res = Inl e)"
      using fin by (cases final) simp_all
    ultimately show ?thesis by blast
  qed
qed

subsection \<open>The result of a sync (C1)\<close>



subsection \<open>The per-record loop (C2)\<close>

text \<open>
  C2. The loop handles the fetched records one after the other. Each record adds one to
  \<^verbatim>\<open>syncedCount\<close> or one to \<^verbatim>\<open>failedCount\<close>, never both and never neither; each failure
  appends one entry \<^verbatim>\<open>{localId, error, retryable}\<close> to \<^verbatim>\<open>errors\<close>, in the order of the
  records, with \<^verbatim>\<open>retryable\<close> computed from the message; every record is sent to the
  remote insert exactly once, in order, whatever failed before it; and after a failed
  upload of the first record the loop goes on with the rest.
\<close>

theorem sync_loop_isolates_failures:
  assumes "sync_loop P uid logs (result, s) = (result', s')"
  shows "syncedCount result' + failedCount result'
           = syncedCount result + failedCount result + length logs
       \<and> (\<exists>new. errors result' = errors result @ new
              \<and> failedCount result' = failedCount result + length new
              \<and> subseq (map localId new) (map id' logs)
              \<and> list_all (\<lambda>e. retryable e = isRetryableError (Error (error e))) new)
       \<and> uploaded s' = uploaded s @ map (\<lambda>log. row_of s log uid) logs
       \<and> (\<forall>log rest err s1.
             logs = log # rest \<and> uploadHealthLog P log uid s = (Inl err, s1) \<longrightarrow>
             (result', s') =
               sync_loop P uid rest
                 (result\<lparr>failedCount := failedCount result + 1,
                         errors := errors result @
                           [\<lparr>localId = id' log, error = message_or_unknown err,
                             retryable = isRetryableError err\<rparr>]\<rparr>, s1))"
proof -
  note c = sync_loop_counts [OF assms]
  note f = sync_loop_frame [OF assms]
  have step: "\<forall>log rest err s1.
             logs = log # rest \<and> uploadHealthLog P log uid s = (Inl err, s1) \<longrightarrow>
             (result', s') =
               sync_loop P uid rest
                 (result\<lparr>failedCount := failedCount result + 1,
                         errors := errors result @
                           [\<lparr>localId = id' log, error = message_or_unknown err,
                             retryable = isRetryableError err\<rparr>]\<rparr>, s1)"
  proof (intro allI impI)
    fix log rest err s1
    assume a: "logs = log # rest \<and> uploadHealthLog P log uid s = (Inl err, s1)"
    then have "sync_one P uid log (result, s) = (record_failure log err result, s1)"
      by (simp add: sync_one_cases)
    with a assms show "(result', s') =
               sync_loop P uid rest
                 (result\<lparr>failedCount := failedCount result + 1,
                         errors := errors result @
                           [\<lparr>localId = id' log, error = message_or_unknown err,
                             retryable = isRetryableError err\<rparr>]\<rparr>, s1)"
      by (simp add: record_failure_def)
  qed
  from c f step show ?thesis by blast
qed

text \<open>C2 on two records, the second upload refused: one synced, one failed, two sent.\<close>

theorem sync_loop_isolates_failures_witness:
  "fst (sync_loop scripted ''supabase-user-id'' two_logs
          (empty_result, idle_service two_log_store second_upload_fails))
     = \<lparr>success = True, syncedCount = 1, failedCount = 1,
        errors = [\<lparr>localId = 2,
                   error = ''Failed to upload health log: Supabase insert error: Network error'',
                   retryable = True\<rparr>]\<rparr>
   \<and> length (uploaded (snd (sync_loop scripted ''supabase-user-id'' two_logs
          (empty_result, idle_service two_log_store second_upload_fails)))) = 2"
proof -
  let ?X = "sync_loop scripted ''supabase-user-id'' two_logs
          (empty_result, idle_service two_log_store second_upload_fails)"
  have run: "?X = (fst ?X, snd ?X)" by simp
  have v: "fst ?X = \<lparr>success = True, syncedCount = 1, failedCount = 1,
        errors = [\<lparr>localId = 2,
                   error = ''Failed to upload health log: Supabase insert error: Network error'',
                   retryable = True\<rparr>]\<rparr>"
    by code_simp
  have "uploaded (snd ?X) = uploaded (idle_service two_log_store second_upload_fails)
          @ map (\<lambda>log. row_of (idle_service two_log_store second_upload_fails) log
                          ''supabase-user-id'') two_logs"
    using sync_loop_isolates_failures [OF run] by blast
  then have "length (uploaded (snd ?X)) = 2"
    by (simp add: idle_service_def two_logs_def)
  with v show ?thesis by blast
qed

subsection \<open>The re-entrancy guard (C3)\<close>



subsection \<open>Upload done, local write failed (C9)\<close>

text \<open>
  A row stays in the store as it is while other rows are marked; the fetch of a sync
  returns every unsynced row of the user; a sync that passes its preconditions sends
  every fetched record to the remote insert.
\<close>

lemma mark_synced_keeps_row:
  "mark_synced P i c s = (r, s') \<Longrightarrow> x \<in> set (rows (databaseService s)) \<Longrightarrow> id' x \<noteq> i \<Longrightarrow>
     x \<in> set (rows (databaseService s'))"
  by (auto simp: mark_synced_def markHealthLogAsSynced_def rows_def
           split: prod.splits option.splits stmt_run.splits)

lemma sync_one_keeps_row:
  assumes "sync_one P u l (r, s) = (r', s')"
    and "x \<in> set (rows (databaseService s))" and "id' x \<noteq> id' l"
  shows "x \<in> set (rows (databaseService s'))"
proof -
  obtain up s1 where up: "uploadHealthLog P l u s = (up, s1)"
    by (cases "uploadHealthLog P l u s")
  from uploadHealthLog_frame [OF up] assms(2)
  have x1: "x \<in> set (rows (databaseService s1))" by simp
  show ?thesis
  proof (cases up)
    case (Inl err)
    with assms(1) up have "s' = s1" by (simp add: sync_one_cases)
    with x1 show ?thesis by simp
  next
    case (Inr cloudId)
    obtain mk s2 where mk: "mark_synced P (id' l) cloudId s1 = (mk, s2)"
      by (cases "mark_synced P (id' l) cloudId s1")
    from assms(1) up Inr mk have "s' = s2" by (cases mk) (simp_all add: sync_one_cases)
    with mark_synced_keeps_row [OF mk x1 assms(3)] show ?thesis by simp
  qed
qed

lemma sync_loop_keeps_row:
  "sync_loop P u logs (r, s) = (r', s') \<Longrightarrow> x \<in> set (rows (databaseService s)) \<Longrightarrow>
     id' x \<notin> id' ` set logs \<Longrightarrow> x \<in> set (rows (databaseService s'))"
proof (induction logs arbitrary: r s)
  case Nil
  then show ?case by simp
next
  case (Cons l logs)
  obtain r1 s1 where one: "sync_one P u l (r, s) = (r1, s1)"
    by (cases "sync_one P u l (r, s)")
  from Cons.prems(1) one have rest: "sync_loop P u logs (r1, s1) = (r', s')" by simp
  from Cons.prems(3) have d: "id' x \<noteq> id' l" and ds: "id' x \<notin> id' ` set logs" by auto
  from sync_one_keeps_row [OF one Cons.prems(2) d] have "x \<in> set (rows (databaseService s1))" .
  from Cons.IH [OF rest this ds] show ?case .
qed

lemma getUnsyncedHealthLogs_holds:
  "x \<in> set (rows svc) \<Longrightarrow> synced_at x = None \<Longrightarrow>
     \<exists>logs'. getUnsyncedHealthLogs (Runs now) (user_id x) svc = Inr logs' \<and> x \<in> set logs'"
  by (cases "db svc") (simp_all add: getUnsyncedHealthLogs_def rows_def)

lemma syncHealthLogs_uploads_fetched:
  assumes "\<not> isSyncing t" and "\<not> not_initialized t"
    and "checkConnectivity P (t\<lparr>isSyncing := True\<rparr>) = (True, t1)"
    and "getSupabaseUser P t1 = (Some uid, t2)"
    and "fetch_unsynced P userId t2 = (Inr logs, t3)"
  shows "\<exists>result t'. syncHealthLogs P userId t = (Inr result, t')
           \<and> uploaded t' = uploaded t @ map (\<lambda>l. row_of t l uid) logs"
proof (cases "logs = []")
  case True
  with assms have "sync_try P userId (t\<lparr>isSyncing := True\<rparr>) =
      (Inr \<lparr>success = True, syncedCount = 0, failedCount = 0, errors = []\<rparr>, t3)"
    by (simp add: sync_try_def)
  with assms(1,2) have run: "syncHealthLogs P userId t =
      (Inr \<lparr>success = True, syncedCount = 0, failedCount = 0, errors = []\<rparr>,
       t3\<lparr>isSyncing := False\<rparr>)"
    by (simp add: syncHealthLogs_def)
  from checkConnectivity_frame [OF assms(3)] getSupabaseUser_frame [OF assms(4)]
    fetch_unsynced_frame [OF assms(5)]
  have "uploaded (t3\<lparr>isSyncing := False\<rparr>) = uploaded t @ map (\<lambda>l. row_of t l uid) logs"
    using True by simp
  with run show ?thesis by blast
next
  case False
  let ?r0 = "\<lparr>success = True, syncedCount = 0, failedCount = 0, errors = []\<rparr>"
  obtain r4 s4 where l: "sync_loop P uid logs (?r0, t3) = (r4, s4)"
    by (cases "sync_loop P uid logs (?r0, t3)")
  define res where "res = r4\<lparr>success := syncedCount r4 > 0 \<or> failedCount r4 = 0\<rparr>"
  from assms False l have "sync_try P userId (t\<lparr>isSyncing := True\<rparr>) = (Inr res, s4)"
    by (simp add: sync_try_def res_def)
  with assms(1,2) have run: "syncHealthLogs P userId t = (Inr res, s4\<lparr>isSyncing := False\<rparr>)"
    by (simp add: syncHealthLogs_def)
  note f = checkConnectivity_frame [OF assms(3)] getSupabaseUser_frame [OF assms(4)]
    fetch_unsynced_frame [OF assms(5)]
  from f have "deviceId t3 = deviceId t" by simp
  then have ro: "row_of t3 = row_of t" by (rule row_of_cong)
  from f have u3: "uploaded t3 = uploaded t" by simp
  from sync_loop_frame [OF l]
  have "uploaded (s4\<lparr>isSyncing := False\<rparr>) = uploaded t @ map (\<lambda>l. row_of t l uid) logs"
    by (simp add: ro u3)
  with run show ?thesis by blast
qed

text \<open>
  C9. When the upload of a record returns a remote id and \<^verbatim>\<open>markHealthLogAsSynced\<close> then
  throws, the iteration counts the record as failed: \<^verbatim>\<open>failedCount\<close> grows by one, an
  entry for the record is appended to \<^verbatim>\<open>errors\<close>, \<^verbatim>\<open>syncedCount\<close> stays. The row has been
  sent to the remote store and the local store is unchanged. So when the record was an
  unsynced row of the store, it still is one after the loop has handled the rest of the
  batch (records with other ids), and a later \<^verbatim>\<open>syncHealthLogs\<close> for the record's user
  on that store (idle, initialised, online, signed in, the driver running the query)
  gets the record from \<^verbatim>\<open>getUnsyncedHealthLogs\<close> and sends every record it got to the
  remote insert: the record is uploaded again.
\<close>

theorem mark_failure_counts_as_failed:
  assumes "uploadHealthLog P log uid s = (Inr cloudId, s1)"
    and "mark_synced P (id' log) cloudId s1 = (Inl err, s2)"
  shows "sync_one P uid log (result, s) =
           (result\<lparr>failedCount := failedCount result + 1,
                   errors := errors result @
                     [\<lparr>localId = id' log, error = message_or_unknown err,
                       retryable = isRetryableError err\<rparr>]\<rparr>, s2)
       \<and> syncedCount (fst (sync_one P uid log (result, s))) = syncedCount result
       \<and> uploaded s2 = uploaded s @ [row_of s log uid]
       \<and> databaseService s2 = databaseService s
       \<and> (\<forall>rest result2 result3 s3 P' t t1 t2 uid' now w.
             log \<in> set (rows (databaseService s)) \<and> synced_at log = None
             \<and> id' log \<notin> id' ` set rest
             \<and> sync_loop P uid rest (result2, s2) = (result3, s3)
             \<and> databaseService t = databaseService s3
             \<and> \<not> isSyncing t \<and> \<not> not_initialized t
             \<and> checkConnectivity P' (t\<lparr>isSyncing := True\<rparr>) = (True, t1)
             \<and> getSupabaseUser P' t1 = (Some uid', t2)
             \<and> sqlite_run P' (world t2) = (Runs now, w)
             \<longrightarrow>
             (\<exists>logs' result' t'.
                getUnsyncedHealthLogs (Runs now) (user_id log) (databaseService t) = Inr logs'
                \<and> log \<in> set logs'
                \<and> syncHealthLogs P' (user_id log) t = (Inr result', t')
                \<and> uploaded t' = uploaded t @ map (\<lambda>l. row_of t l uid') logs'))"
proof -
  from assms have one: "sync_one P uid log (result, s) = (record_failure log err result, s2)"
    by (simp add: sync_one_cases)
  then have a: "sync_one P uid log (result, s) =
           (result\<lparr>failedCount := failedCount result + 1,
                   errors := errors result @
                     [\<lparr>localId = id' log, error = message_or_unknown err,
                       retryable = isRetryableError err\<rparr>]\<rparr>, s2)"
    by (simp add: record_failure_def)
  then have b: "syncedCount (fst (sync_one P uid log (result, s))) = syncedCount result"
    by simp
  from uploadHealthLog_frame [OF assms(1)] mark_synced_frame [OF assms(2)]
  have c: "uploaded s2 = uploaded s @ [row_of s log uid]" by simp
  from uploadHealthLog_frame [OF assms(1)] mark_synced_fails_db [OF assms(2)]
  have d: "databaseService s2 = databaseService s" by simp
  have e: "\<forall>rest result2 result3 s3 P' t t1 t2 uid' now w.
             log \<in> set (rows (databaseService s)) \<and> synced_at log = None
             \<and> id' log \<notin> id' ` set rest
             \<and> sync_loop P uid rest (result2, s2) = (result3, s3)
             \<and> databaseService t = databaseService s3
             \<and> \<not> isSyncing t \<and> \<not> not_initialized t
             \<and> checkConnectivity P' (t\<lparr>isSyncing := True\<rparr>) = (True, t1)
             \<and> getSupabaseUser P' t1 = (Some uid', t2)
             \<and> sqlite_run P' (world t2) = (Runs now, w)
             \<longrightarrow>
             (\<exists>logs' result' t'.
                getUnsyncedHealthLogs (Runs now) (user_id log) (databaseService t) = Inr logs'
                \<and> log \<in> set logs'
                \<and> syncHealthLogs P' (user_id log) t = (Inr result', t')
                \<and> uploaded t' = uploaded t @ map (\<lambda>l. row_of t l uid') logs')"
  proof (intro allI impI, elim conjE)
    fix rest result2 result3 s3 P' t t1 t2 uid' now w
    assume inrows: "log \<in> set (rows (databaseService s))" and un: "synced_at log = None"
      and other: "id' log \<notin> id' ` set rest"
      and loop: "sync_loop P uid rest (result2, s2) = (result3, s3)"
      and store: "databaseService t = databaseService s3"
      and idle: "\<not> isSyncing t" and init: "\<not> not_initialized t"
      and online: "checkConnectivity P' (t\<lparr>isSyncing := True\<rparr>) = (True, t1)"
      and signed: "getSupabaseUser P' t1 = (Some uid', t2)"
      and driver: "sqlite_run P' (world t2) = (Runs now, w)"
    from inrows d have "log \<in> set (rows (databaseService s2))" by simp
    from sync_loop_keeps_row [OF loop this other] store
    have still: "log \<in> set (rows (databaseService t))" by simp
    from getUnsyncedHealthLogs_holds [OF still un, of now] obtain logs'
      where q: "getUnsyncedHealthLogs (Runs now) (user_id log) (databaseService t) = Inr logs'"
        and m: "log \<in> set logs'" by blast
    from checkConnectivity_frame [OF online] getSupabaseUser_frame [OF signed]
    have "databaseService t2 = databaseService t" by simp
    with driver q have "fetch_unsynced P' (user_id log) t2 = (Inr logs', t2\<lparr>world := w\<rparr>)"
      by (simp add: fetch_unsynced_def)
    from syncHealthLogs_uploads_fetched [OF idle init online signed this]
    obtain result' t' where run: "syncHealthLogs P' (user_id log) t = (Inr result', t')"
      and up: "uploaded t' = uploaded t @ map (\<lambda>l. row_of t l uid') logs'" by blast
    show "\<exists>logs' result' t'.
                getUnsyncedHealthLogs (Runs now) (user_id log) (databaseService t) = Inr logs'
                \<and> log \<in> set logs'
                \<and> syncHealthLogs P' (user_id log) t = (Inr result', t')
                \<and> uploaded t' = uploaded t @ map (\<lambda>l. row_of t l uid') logs'"
      by (rule exI [of _ logs'], rule exI [of _ result'], rule exI [of _ t'])
         (intro conjI q m run up)
  qed
  from a b c d e show ?thesis by (intro conjI)
qed

text \<open>
  C9 when the driver rejects the update of the first of two records: the first is counted
  as failed and stays unsynced in the store, the second is marked; a later sync on that
  store fetches the first record and uploads it a second time.
\<close>

theorem mark_failure_counts_as_failed_witness:
  "fst (sync_one scripted ''supabase-user-id'' first_log
          (empty_result, idle_service two_log_store mark_rejected))
     = \<lparr>success = True, syncedCount = 0, failedCount = 1,
        errors = [\<lparr>localId = 1,
                   error = ''Failed to mark health log as synced: Error: disk I/O error'',
                   retryable = False\<rparr>]\<rparr>
   \<and> uploaded (snd (sync_one scripted ''supabase-user-id'' first_log
          (empty_result, idle_service two_log_store mark_rejected)))
     = [\<lparr>ins_user_id = ''supabase-user-id'', ins_encrypted_data = ''c1'',
         device_id = ''device-1''\<rparr>]
   \<and> databaseService (snd (sync_one scripted ''supabase-user-id'' first_log
          (empty_result, idle_service two_log_store mark_rejected)))
     = two_log_store
   \<and> databaseService (snd (sync_loop scripted ''supabase-user-id'' two_logs
          (empty_result, idle_service two_log_store mark_rejected)))
     = \<lparr>db = Some \<lparr>health_logs =
           [first_log, second_log\<lparr>synced_at := Some 0, cloud_id := Some ''cloud-id''\<rparr>],
         health_logs_seq = 2\<rparr>\<rparr>
   \<and> getUnsyncedHealthLogs (Runs 0) 7
        \<lparr>db = Some \<lparr>health_logs =
           [first_log, second_log\<lparr>synced_at := Some 0, cloud_id := Some ''cloud-id''\<rparr>],
         health_logs_seq = 2\<rparr>\<rparr>
     = Inr [first_log]
   \<and> uploaded (snd (syncHealthLogs scripted 7
        (idle_service
           \<lparr>db = Some \<lparr>health_logs =
              [first_log, second_log\<lparr>synced_at := Some 0, cloud_id := Some ''cloud-id''\<rparr>],
            health_logs_seq = 2\<rparr>\<rparr>
           healthy)))
     = [\<lparr>ins_user_id = ''supabase-user-id'', ins_encrypted_data = ''c1'',
         device_id = ''device-1''\<rparr>]"
proof -
  let ?s = "idle_service two_log_store mark_rejected"
  let ?s1 = "snd (uploadHealthLog scripted first_log ''supabase-user-id'' ?s)"
  let ?s2 = "snd (mark_synced scripted (id' first_log) ''cloud-id'' ?s1)"
  have "fst (uploadHealthLog scripted first_log ''supabase-user-id'' ?s) = Inr ''cloud-id''"
    by code_simp
  then have up: "uploadHealthLog scripted first_log ''supabase-user-id'' ?s = (Inr ''cloud-id'', ?s1)"
    by (metis prod.collapse)
  have "fst (mark_synced scripted (id' first_log) ''cloud-id'' ?s1)
          = Inl (Error ''Failed to mark health log as synced: Error: disk I/O error'')"
    by code_simp
  then have mk: "mark_synced scripted (id' first_log) ''cloud-id'' ?s1
          = (Inl (Error ''Failed to mark health log as synced: Error: disk I/O error''), ?s2)"
    by (metis prod.collapse)
  note t = mark_failure_counts_as_failed [OF up mk, of empty_result]
  have nr: "isRetryableError (Error ''Failed to mark health log as synced: Error: disk I/O error'') = False"
    by code_simp
  from t have one: "sync_one scripted ''supabase-user-id'' first_log (empty_result, ?s) =
           (empty_result\<lparr>failedCount := failedCount empty_result + 1,
                   errors := errors empty_result @
                     [\<lparr>localId = id' first_log, error = message_or_unknown (Error ''Failed to mark health log as synced: Error: disk I/O error''),
                       retryable = isRetryableError (Error ''Failed to mark health log as synced: Error: disk I/O error'')\<rparr>]\<rparr>, ?s2)"
    by (rule conjunct1)
  have a: "fst (sync_one scripted ''supabase-user-id'' first_log (empty_result, ?s))
     = \<lparr>success = True, syncedCount = 0, failedCount = 1,
        errors = [\<lparr>localId = 1,
                   error = ''Failed to mark health log as synced: Error: disk I/O error'',
                   retryable = False\<rparr>]\<rparr>"
    unfolding one by (simp add: nr empty_result_def first_log_def)
  from t have "uploaded ?s2 = uploaded ?s @ [row_of ?s first_log ''supabase-user-id'']"
    by (elim conjE)
  then have b: "uploaded (snd (sync_one scripted ''supabase-user-id'' first_log (empty_result, ?s)))
     = [\<lparr>ins_user_id = ''supabase-user-id'', ins_encrypted_data = ''c1'',
         device_id = ''device-1''\<rparr>]"
    unfolding one by (simp add: idle_service_def row_of_def first_log_def)
  from t have "databaseService ?s2 = databaseService ?s" by (elim conjE)
  then have c: "databaseService (snd (sync_one scripted ''supabase-user-id'' first_log (empty_result, ?s)))
     = two_log_store"
    unfolding one by (simp add: idle_service_def)
  let ?later = "\<lparr>db = Some \<lparr>health_logs =
           [first_log, second_log\<lparr>synced_at := Some 0, cloud_id := Some ''cloud-id''\<rparr>],
         health_logs_seq = 2\<rparr>\<rparr>"
  let ?t = "idle_service ?later healthy"
  let ?r2 = "fst (sync_one scripted ''supabase-user-id'' first_log (empty_result, ?s))"
  let ?X = "sync_loop scripted ''supabase-user-id'' [second_log] (?r2, ?s2)"
  have whole: "sync_loop scripted ''supabase-user-id'' two_logs (empty_result, ?s) = ?X"
    unfolding two_logs_def sync_loop.simps one by simp
  have store: "databaseService (snd ?X) = ?later" by code_simp
  have d: "databaseService (snd (sync_loop scripted ''supabase-user-id'' two_logs
          (empty_result, ?s))) = ?later"
    unfolding whole by (rule store)
  have f: "getUnsyncedHealthLogs (Runs 0) 7 ?later = Inr [first_log]" by code_simp
  have h1: "first_log \<in> set (rows (databaseService ?s))"
    by (simp add: idle_service_def two_log_store_def two_logs_def rows_def)
  have h2: "synced_at first_log = None" by (simp add: first_log_def)
  have h3: "id' first_log \<notin> id' ` set [second_log]"
    by (simp add: first_log_def second_log_def)
  have h4: "?X = (fst ?X, snd ?X)" by simp
  have h5: "databaseService ?t = databaseService (snd ?X)"
    unfolding store by (simp add: idle_service_def)
  have h6: "\<not> isSyncing ?t" and h7: "\<not> not_initialized ?t"
    by (simp_all add: idle_service_def not_initialized_def)
  have h8: "checkConnectivity scripted (?t\<lparr>isSyncing := True\<rparr>) = (True, ?t\<lparr>isSyncing := True\<rparr>)"
    by code_simp
  have h9: "getSupabaseUser scripted (?t\<lparr>isSyncing := True\<rparr>)
              = (Some ''supabase-user-id'', ?t\<lparr>isSyncing := True\<rparr>)"
    by code_simp
  have h10: "sqlite_run scripted (world (?t\<lparr>isSyncing := True\<rparr>)) = (Runs 0, healthy)"
    by code_simp
  note later = t [THEN conjunct2, THEN conjunct2, THEN conjunct2, THEN conjunct2, rule_format,
    OF conjI [OF h1 conjI [OF h2 conjI [OF h3 conjI [OF h4 conjI [OF h5 conjI [OF h6
       conjI [OF h7 conjI [OF h8 conjI [OF h9 h10]]]]]]]]]]
  then obtain logs' result' t' where
    q: "getUnsyncedHealthLogs (Runs 0) (user_id first_log) (databaseService ?t) = Inr logs'"
    and run: "syncHealthLogs scripted (user_id first_log) ?t = (Inr result', t')"
    and again: "uploaded t' = uploaded ?t @ map (\<lambda>l. row_of ?t l ''supabase-user-id'') logs'"
    by (elim exE conjE)
  have u7: "user_id first_log = 7" by (simp add: first_log_def)
  from q f have "logs' = [first_log]" by (simp add: u7 idle_service_def)
  with run again have e: "uploaded (snd (syncHealthLogs scripted 7 ?t))
     = [\<lparr>ins_user_id = ''supabase-user-id'', ins_encrypted_data = ''c1'',
         device_id = ''device-1''\<rparr>]"
    by (simp add: u7 idle_service_def row_of_def first_log_def)
  from a b c d f e show ?thesis by (intro conjI)
qed

subsection \<open>Retry with backoff (C7)\<close>

text \<open>
  C7. For \<^verbatim>\<open>maxRetries\<close> of at least one, \<^verbatim>\<open>retrySyncWithBackoff\<close> makes a sequence of
  attempts: each failed attempt but the last is followed by a sleep of
  \<^verbatim>\<open>2^(attempt-1)\<close> seconds (1000, 2000, 4000, ... milliseconds); the last attempt is
  followed by none; there are at most \<^verbatim>\<open>maxRetries\<close> attempts; the first attempt that
  returns ends the loop with its result; and an error is the outcome only of the
  \<^verbatim>\<open>maxRetries\<close>-th attempt, thrown on as it is. For \<^verbatim>\<open>maxRetries\<close> below one no attempt
  is made.
\<close>

theorem retrySyncWithBackoff_schedule:
  assumes "retrySyncWithBackoff P userId maxRetries s = (res, s')"
  shows "(1 \<le> maxRetries \<longrightarrow>
            (\<exists>errs final.
               journal s' = journal s
                 @ concat (map (\<lambda>(i, e). [Attempt (Inl e), Slept (2 ^ i * 1000)])
                               (enumerate 0 errs))
                 @ [Attempt final]
               \<and> int (length errs) < maxRetries
               \<and> (case final of Inr r \<Rightarrow> res = Inr r
                   | Inl e \<Rightarrow> int (length errs) + 1 = maxRetries \<and> res = Inl e)))
       \<and> (maxRetries < 1 \<longrightarrow>
            journal s' = journal s \<and> res = Inl (Error ''Max retries exceeded''))"
proof (rule conjI; rule impI)
  assume m: "1 \<le> maxRetries"
  from assms have r: "retry_from P userId maxRetries 1 None s = (res, s')"
    by (simp add: retrySyncWithBackoff_def)
  from retry_from_journal [OF _ m r] obtain errs final where
    j: "journal s' = journal s
             @ concat (map (\<lambda>(i, e). [Attempt (Inl e), Slept (2 ^ i * 1000)])
                           (enumerate (nat (1 - 1)) errs))
             @ [Attempt final]"
    and le: "1 + int (length errs) \<le> maxRetries"
    and fin: "(case final of Inr r \<Rightarrow> res = Inr r
             | Inl e \<Rightarrow> 1 + int (length errs) = maxRetries \<and> res = Inl e)"
    by auto
  from j have "journal s' = journal s
             @ concat (map (\<lambda>(i, e). [Attempt (Inl e), Slept (2 ^ i * 1000)])
                           (enumerate 0 errs))
             @ [Attempt final]" by simp
  moreover from le have "int (length errs) < maxRetries" by simp
  moreover from fin have "(case final of Inr r \<Rightarrow> res = Inr r
                   | Inl e \<Rightarrow> int (length errs) + 1 = maxRetries \<and> res = Inl e)"
    by (cases final) simp_all
  ultimately show "\<exists>errs final.
               journal s' = journal s
                 @ concat (map (\<lambda>(i, e). [Attempt (Inl e), Slept (2 ^ i * 1000)])
                               (enumerate 0 errs))
                 @ [Attempt final]
               \<and> int (length errs) < maxRetries
               \<and> (case final of Inr r \<Rightarrow> res = Inr r
                   | Inl e \<Rightarrow> int (length errs) + 1 = maxRetries \<and> res = Inl e)"
    by blast
next
  assume "maxRetries < 1"
  with assms show "journal s' = journal s \<and> res = Inl (Error ''Max retries exceeded'')"
    by (auto simp: retrySyncWithBackoff_def retry_from_done)
qed

text \<open>
  C7 when the connectivity probe fails twice and then succeeds, with three attempts
  allowed: sleeps of one and two seconds, three attempts, success.
\<close>

theorem retrySyncWithBackoff_schedule_witness:
  "fst (retrySyncWithBackoff scripted 7 3 (idle_service fresh_store offline_twice))
     = Inr \<lparr>success = True, syncedCount = 0, failedCount = 0, errors = []\<rparr>
   \<and> journal (snd (retrySyncWithBackoff scripted 7 3 (idle_service fresh_store offline_twice)))
     = [Attempt (Inl (Error ''Sync failed: No internet connection available'')), Slept 1000,
        Attempt (Inl (Error ''Sync failed: No internet connection available'')), Slept 2000,
        Attempt (Inr \<lparr>success = True, syncedCount = 0, failedCount = 0, errors = []\<rparr>)]
   \<and> (\<exists>errs final.
         journal (snd (retrySyncWithBackoff scripted 7 3 (idle_service fresh_store offline_twice)))
           = concat (map (\<lambda>(i, e). [Attempt (Inl e), Slept (2 ^ i * 1000)]) (enumerate 0 errs))
             @ [Attempt final]
         \<and> length errs < 3)"
proof -
  let ?X = "retrySyncWithBackoff scripted 7 3 (idle_service fresh_store offline_twice)"
  have run: "?X = (fst ?X, snd ?X)" by simp
  have a: "fst ?X = Inr \<lparr>success = True, syncedCount = 0, failedCount = 0, errors = []\<rparr>"
    by code_simp
  have b: "journal (snd ?X)
     = [Attempt (Inl (Error ''Sync failed: No internet connection available'')), Slept 1000,
        Attempt (Inl (Error ''Sync failed: No internet connection available'')), Slept 2000,
        Attempt (Inr \<lparr>success = True, syncedCount = 0, failedCount = 0, errors = []\<rparr>)]"
    by code_simp
  from retrySyncWithBackoff_schedule [OF run] obtain errs final where
    "journal (snd ?X) = journal (idle_service fresh_store offline_twice)
        @ concat (map (\<lambda>(i, e). [Attempt (Inl e), Slept (2 ^ i * 1000)]) (enumerate 0 errs))
        @ [Attempt final]"
    and "int (length errs) < 3"
    by auto
  then have "journal (snd ?X)
           = concat (map (\<lambda>(i, e). [Attempt (Inl e), Slept (2 ^ i * 1000)]) (enumerate 0 errs))
             @ [Attempt final]
         \<and> length errs < 3"
    by (simp add: idle_service_def)
  then have "\<exists>errs final. journal (snd ?X)
           = concat (map (\<lambda>(i, e). [Attempt (Inl e), Slept (2 ^ i * 1000)]) (enumerate 0 errs))
             @ [Attempt final]
         \<and> length errs < 3"
    by blast
  with a b show ?thesis by blast
qed

subsection \<open>Cipher round trip (C4)\<close>
























subsection \<open>The sync fields of a row are null together (C5)\<close>

lemma perform_paired: "sync_fields_paired svc \<Longrightarrow> sync_fields_paired (perform c svc)"
  by (cases c) (auto simp: sync_fields_paired_def rows_def createHealthLog_def updateHealthLog_def
     deleteHealthLog_def markHealthLogAsSynced_def clearAllData_def list_all_iff Let_def
     split: option.splits stmt_run.splits)

lemma perform_all_paired:
  "sync_fields_paired svc \<Longrightarrow> sync_fields_paired (perform_all calls svc)"
  unfolding perform_all_def by (induction calls arbitrary: svc) (auto simp: perform_paired)

lemma fresh_store_paired: "sync_fields_paired fresh_store"
  by (simp add: sync_fields_paired_def rows_def fresh_store_def)

text \<open>
  C5. Whatever sequence of store operations is run, from the fresh store or from any
  store in which every row has \<^verbatim>\<open>synced_at\<close> and \<^verbatim>\<open>cloud_id\<close> both null or both set, every
  row of the resulting store has them both null or both set. An insert appends a row with
  both null; an update of the payload leaves both fields of every row as they were; a mark
  sets both, on the rows with the given id and on no other.
\<close>

theorem store_keeps_sync_fields_paired:
  "sync_fields_paired (perform_all calls fresh_store)
   \<and> (sync_fields_paired svc \<longrightarrow> sync_fields_paired (perform_all calls svc))
   \<and> (createHealthLog (Runs now) userId payload svc = (Inr i, svc') \<longrightarrow>
        rows svc' = rows svc @
          [\<lparr>id' = i, user_id = userId, encrypted_data = payload, created_at = now,
            updated_at = now, synced_at = None, cloud_id = None\<rparr>])
   \<and> map (\<lambda>r. (id' r, synced_at r, cloud_id r))
         (rows (snd (updateHealthLog run j payload svc)))
       = map (\<lambda>r. (id' r, synced_at r, cloud_id r)) (rows svc)
   \<and> rows (snd (markHealthLogAsSynced (Runs now) j cloudId svc))
       = map (\<lambda>r. if id' r = j then r\<lparr>synced_at := Some now, cloud_id := Some cloudId\<rparr>
                   else r) (rows svc)"
proof (intro conjI)
  show "sync_fields_paired (perform_all calls fresh_store)"
    by (rule perform_all_paired [OF fresh_store_paired])
  show "sync_fields_paired svc \<longrightarrow> sync_fields_paired (perform_all calls svc)"
    by (simp add: perform_all_paired)
  show "createHealthLog (Runs now) userId payload svc = (Inr i, svc') \<longrightarrow>
        rows svc' = rows svc @
          [\<lparr>id' = i, user_id = userId, encrypted_data = payload, created_at = now,
            updated_at = now, synced_at = None, cloud_id = None\<rparr>]"
    by (auto simp: createHealthLog_def rows_def Let_def split: option.splits)
  show "map (\<lambda>r. (id' r, synced_at r, cloud_id r))
         (rows (snd (updateHealthLog run j payload svc)))
       = map (\<lambda>r. (id' r, synced_at r, cloud_id r)) (rows svc)"
    by (auto simp: updateHealthLog_def rows_def split: option.splits stmt_run.splits)
  show "rows (snd (markHealthLogAsSynced (Runs now) j cloudId svc))
       = map (\<lambda>r. if id' r = j then r\<lparr>synced_at := Some now, cloud_id := Some cloudId\<rparr>
                   else r) (rows svc)"
    by (auto simp: markHealthLogAsSynced_def rows_def split: option.splits)
qed

text \<open>C5 on a sequence of calls that leaves one synced and one unsynced row.\<close>

theorem store_keeps_sync_fields_paired_witness:
  "sync_fields_paired (perform_all demo_calls fresh_store)
   \<and> map (\<lambda>r. (id' r, encrypted_data r, synced_at r, cloud_id r))
         (rows (perform_all demo_calls fresh_store))
       = [(1, ''c1b'', Some 9, Some ''cloud-id-1''), (2, ''c2'', None, None)]"
proof -
  have "sync_fields_paired (perform_all demo_calls fresh_store)"
    using store_keeps_sync_fields_paired [of demo_calls] by blast
  moreover have "map (\<lambda>r. (id' r, encrypted_data r, synced_at r, cloud_id r))
         (rows (perform_all demo_calls fresh_store))
       = [(1, ''c1b'', Some 9, Some ''cloud-id-1''), (2, ''c2'', None, None)]"
    by code_simp
  ultimately show ?thesis by (intro conjI)
qed

subsection \<open>Updating a record (C6)\<close>

lemma id_missing_iff: "id_missing v = (\<not> (\<exists>s. v = JString s \<and> trim s \<noteq> []))"
proof (cases v)
  case (JString s)
  have "trim [] = []" by (simp add: trim_def)
  then have "s = [] \<Longrightarrow> trim s = []" by simp
  with JString show ?thesis by (auto simp: id_missing_def)
qed (simp_all add: id_missing_def)

lemma update_success_parts:
  assumes "HealthLogService_updateHealthLog R this env healthLogId patch dbs = (Inr log, dbs')"
  shows "\<exists>existingLog c now.
           getHealthLog R this (read_run env) healthLogId dbs = Inr (Some existingLog)
         \<and> log_id log = log_id existingLog
         \<and> AES_encrypt (cryptojs R) (JSON_stringify R log) (encryptionKey this) (salt env) = Inr c
         \<and> write_run env = Runs now
         \<and> rows dbs' = map (\<lambda>r. if id' r = healthLogId
                                   then r\<lparr>encrypted_data := c, updated_at := now\<rparr> else r)
                            (rows dbs)"
proof -
  from assms have nm: "\<not> id_missing (upd_id patch)"
    by (auto simp: HealthLogService_updateHealthLog_def)
  obtain g where g: "getHealthLog R this (read_run env) healthLogId dbs = g" by simp
  from assms nm g obtain existingLog where ex: "g = Inr (Some existingLog)"
    by (cases g; cases "projr g")
       (auto simp: HealthLogService_updateHealthLog_def Let_def split: sum.splits option.splits)
  obtain sn where sn: "sanitize_update (merge_update existingLog patch) = sn" by simp
  from assms nm g ex sn obtain sanitizedLog where sl: "sn = Inr sanitizedLog"
    by (cases sn) (auto simp: HealthLogService_updateHealthLog_def Let_def)
  from sn sl have idl: "log_id sanitizedLog = log_id existingLog"
    by (auto simp: sanitize_update_def merge_update_def split: option.splits)
  from assms nm g ex sn sl have
    v: "isValid (validateHealthLogData R (clock env) sanitizedLog)"
    by (auto simp: HealthLogService_updateHealthLog_def Let_def split: if_splits)
  let ?enc = "encrypt (cryptojs R) (salt env) (JSON_stringify R sanitizedLog) (encryptionKey this)"
  from assms nm g ex sn sl v have es: "enc_success ?enc"
    by (auto simp: HealthLogService_updateHealthLog_def Let_def split: if_splits)
  from assms nm g ex sn sl v es have
    w: "updateHealthLog (write_run env) healthLogId (encryptedData ?enc) dbs = (Inr (), dbs')"
    and lg: "log = sanitizedLog"
    by (auto simp: HealthLogService_updateHealthLog_def Let_def split: prod.splits sum.splits)
  from es have c: "AES_encrypt (cryptojs R) (JSON_stringify R sanitizedLog) (encryptionKey this)
                     (salt env) = Inr (encryptedData ?enc)"
    by (auto simp: encrypt_def split: if_splits sum.splits)
  from w obtain d now where dbo: "db dbs = Some d" and wr: "write_run env = Runs now"
    by (auto simp: updateHealthLog_def split: option.splits stmt_run.splits)
  with w have rw: "rows dbs' = map (\<lambda>r. if id' r = healthLogId
                                   then r\<lparr>encrypted_data := encryptedData ?enc, updated_at := now\<rparr> else r)
                            (rows dbs)"
    by (auto simp: updateHealthLog_def rows_def)
  from g ex idl lg c wr rw show ?thesis by blast
qed

lemma update_ignores_id_value:
  assumes "\<not> id_missing v" and "\<not> id_missing v'"
  shows "HealthLogService_updateHealthLog R this env healthLogId (patch\<lparr>upd_id := v\<rparr>) dbs
       = HealthLogService_updateHealthLog R this env healthLogId (patch\<lparr>upd_id := v'\<rparr>) dbs"
proof -
  have m: "merge_update e (patch\<lparr>upd_id := v\<rparr>) = merge_update e (patch\<lparr>upd_id := v'\<rparr>)" for e
    by (simp add: merge_update_def)
  show ?thesis
    using assms unfolding HealthLogService_updateHealthLog_def m by simp
qed

text \<open>
  C6, as the code has it. The update requires \<^verbatim>\<open>patch.id\<close> to be a string that is not empty
  after trimming: for any other value (empty, blank, not a string) it fails with the
  validation error \<^verbatim>\<open>ID is required for updates and must be a string\<close> and changes
  nothing. The id of the patch is not compared with the stored record's id: the outcome is
  the same for every two acceptable ids. On success the returned record has the id of the
  stored record, and the stored payload is the encryption of its serialisation.
\<close>

theorem update_requires_nonblank_string_id:
  "id_missing (upd_id patch) = (\<not> (\<exists>s. upd_id patch = JString s \<and> trim s \<noteq> []))
   \<and> (id_missing (upd_id patch) \<longrightarrow>
        HealthLogService_updateHealthLog R this env healthLogId patch dbs
          = (Inl (Error ''Validation failed: ID is required for updates and must be a string''),
             dbs))
   \<and> (\<not> id_missing v \<and> \<not> id_missing v' \<longrightarrow>
        HealthLogService_updateHealthLog R this env healthLogId (patch\<lparr>upd_id := v\<rparr>) dbs
          = HealthLogService_updateHealthLog R this env healthLogId (patch\<lparr>upd_id := v'\<rparr>) dbs)
   \<and> (HealthLogService_updateHealthLog R this env healthLogId patch dbs = (Inr log, dbs') \<longrightarrow>
        (\<exists>existingLog c now.
           getHealthLog R this (read_run env) healthLogId dbs = Inr (Some existingLog)
         \<and> log_id log = log_id existingLog
         \<and> AES_encrypt (cryptojs R) (JSON_stringify R log) (encryptionKey this) (salt env) = Inr c
         \<and> write_run env = Runs now
         \<and> rows dbs' = map (\<lambda>r. if id' r = healthLogId
                                   then r\<lparr>encrypted_data := c, updated_at := now\<rparr> else r)
                            (rows dbs)))"
proof (intro conjI)
  show "id_missing (upd_id patch) = (\<not> (\<exists>s. upd_id patch = JString s \<and> trim s \<noteq> []))"
    by (rule id_missing_iff)
  show "id_missing (upd_id patch) \<longrightarrow>
        HealthLogService_updateHealthLog R this env healthLogId patch dbs
          = (Inl (Error ''Validation failed: ID is required for updates and must be a string''),
             dbs)"
    by (simp add: HealthLogService_updateHealthLog_def)
  show "\<not> id_missing v \<and> \<not> id_missing v' \<longrightarrow>
        HealthLogService_updateHealthLog R this env healthLogId (patch\<lparr>upd_id := v\<rparr>) dbs
          = HealthLogService_updateHealthLog R this env healthLogId (patch\<lparr>upd_id := v'\<rparr>) dbs"
    using update_ignores_id_value by blast
  show "HealthLogService_updateHealthLog R this env healthLogId patch dbs = (Inr log, dbs') \<longrightarrow>
        (\<exists>existingLog c now.
           getHealthLog R this (read_run env) healthLogId dbs = Inr (Some existingLog)
         \<and> log_id log = log_id existingLog
         \<and> AES_encrypt (cryptojs R) (JSON_stringify R log) (encryptionKey this) (salt env) = Inr c
         \<and> write_run env = Runs now
         \<and> rows dbs' = map (\<lambda>r. if id' r = healthLogId
                                   then r\<lparr>encrypted_data := c, updated_at := now\<rparr> else r)
                            (rows dbs))"
    using update_success_parts by blast
qed

text \<open>
  C6 on the demo store: a blank id is refused; with the record's own id the update
  succeeds and the id stays.
\<close>

theorem update_requires_nonblank_string_id_witness:
  "HealthLogService_updateHealthLog demo_runtime \<lparr>encryptionKey = ''k1''\<rparr> demo_env 1
       (matching_patch\<lparr>upd_id := JString ''  ''\<rparr>) demo_store
     = (Inl (Error ''Validation failed: ID is required for updates and must be a string''),
        demo_store)
   \<and> fst (HealthLogService_updateHealthLog demo_runtime \<lparr>encryptionKey = ''k1''\<rparr> demo_env 1
            matching_patch demo_store)
     = Inr (demo_log\<lparr>title := Some ''Updated''\<rparr>)
   \<and> (\<exists>existingLog.
         getHealthLog demo_runtime \<lparr>encryptionKey = ''k1''\<rparr> (read_run demo_env) 1 demo_store
           = Inr (Some existingLog)
         \<and> log_id (demo_log\<lparr>title := Some ''Updated''\<rparr>) = log_id existingLog)"
proof -
  let ?hls = "\<lparr>encryptionKey = ''k1''\<rparr>"
  let ?U = "HealthLogService_updateHealthLog demo_runtime ?hls demo_env 1 matching_patch
              demo_store"
  have "id_missing (upd_id (matching_patch\<lparr>upd_id := JString ''  ''\<rparr>))" by code_simp
  with update_requires_nonblank_string_id
         [of "matching_patch\<lparr>upd_id := JString ''  ''\<rparr>" demo_runtime ?hls demo_env 1 demo_store]
  have a: "HealthLogService_updateHealthLog demo_runtime ?hls demo_env 1
       (matching_patch\<lparr>upd_id := JString ''  ''\<rparr>) demo_store
     = (Inl (Error ''Validation failed: ID is required for updates and must be a string''),
        demo_store)"
    by blast
  have b: "fst ?U = Inr (demo_log\<lparr>title := Some ''Updated''\<rparr>)" by code_simp
  then have run: "?U = (Inr (demo_log\<lparr>title := Some ''Updated''\<rparr>), snd ?U)"
    by (metis prod.collapse)
  note t = update_requires_nonblank_string_id
             [of matching_patch demo_runtime ?hls demo_env 1 demo_store,
              THEN conjunct2, THEN conjunct2, THEN conjunct2, rule_format, OF run]
  then obtain existingLog where
    "getHealthLog demo_runtime ?hls (read_run demo_env) 1 demo_store = Inr (Some existingLog)"
    and "log_id (demo_log\<lparr>title := Some ''Updated''\<rparr>) = log_id existingLog"
    by (elim exE conjE)
  then have c: "\<exists>existingLog.
         getHealthLog demo_runtime ?hls (read_run demo_env) 1 demo_store
           = Inr (Some existingLog)
         \<and> log_id (demo_log\<lparr>title := Some ''Updated''\<rparr>) = log_id existingLog"
    by (intro exI [of _ existingLog] conjI)
  from a b c show ?thesis by (intro conjI)
qed

text \<open>
  C6 as stated fails: the stored record has the id \<^verbatim>\<open>health_log_1\<close>, the patch carries
  \<^verbatim>\<open>another-id\<close>, and the update succeeds.
\<close>

theorem update_mismatched_id_counterexample:
  "getHealthLog demo_runtime \<lparr>encryptionKey = ''k1''\<rparr> (Runs 200) 1 demo_store
     = Inr (Some demo_log)
   \<and> upd_id mismatched_patch = JString ''another-id''
   \<and> log_id demo_log = ''health_log_1''
   \<and> fst (HealthLogService_updateHealthLog demo_runtime \<lparr>encryptionKey = ''k1''\<rparr> demo_env 1
            mismatched_patch demo_store)
     = Inr (demo_log\<lparr>title := Some ''Updated''\<rparr>)"
  by code_simp

subsection \<open>Deleting an undecryptable record (C10)\<close>

lemma decrypt_failure_text:
  assumes "\<not> dec_success (decrypt lib c k)"
  shows "\<exists>m. dec_error (decrypt lib c k) = Some m \<and> m \<noteq> []
            \<and> (m = ''Encrypted data and key are required for decryption''
                \<or> (\<exists>rest. m = ''Decryption failed: '' @ rest))"
  using assms by (auto simp: decrypt_def split: if_splits sum.splits)

text \<open>
  C10. When the row exists and its payload does not decrypt under the service's key,
  \<^verbatim>\<open>deleteHealthLog\<close> throws the wrapped decryption error
  \<^verbatim>\<open>Failed to delete health log: Failed to retrieve health log: ...\<close>, which is not the
  not-found error, and the store is unchanged: the row is still there. This holds for
  every outcome of the driver on the delete statement, which is never reached.
\<close>

theorem delete_of_undecryptable_record_fails:
  assumes "getHealthLogById read_r healthLogId dbs = Inr (Some row)"
    and "\<not> dec_success (decrypt (cryptojs R) (encrypted_data row) (encryptionKey this))"
  shows "\<exists>m. dec_error (decrypt (cryptojs R) (encrypted_data row) (encryptionKey this)) = Some m
            \<and> HealthLogService_deleteHealthLog R this read_r write_r healthLogId dbs
                = (Inl (Error (''Failed to delete health log: Failed to retrieve health log: ''
                               @ m)), dbs)
            \<and> fst (HealthLogService_deleteHealthLog R this read_r write_r healthLogId dbs)
                \<noteq> Inl (Error ''Failed to delete health log: Health log not found'')"
proof -
  from decrypt_failure_text [OF assms(2)] obtain m where
    m: "dec_error (decrypt (cryptojs R) (encrypted_data row) (encryptionKey this)) = Some m"
    and ne: "m \<noteq> []" by blast
  from assms m ne have g: "getHealthLog R this read_r healthLogId dbs
      = Inl (Error (''Failed to retrieve health log: '' @ m))"
    by (simp add: getHealthLog_def error_or_def Let_def)
  then have d: "HealthLogService_deleteHealthLog R this read_r write_r healthLogId dbs
      = (Inl (Error (''Failed to delete health log: Failed to retrieve health log: '' @ m)), dbs)"
    by (simp add: HealthLogService_deleteHealthLog_def)
  then have "fst (HealthLogService_deleteHealthLog R this read_r write_r healthLogId dbs)
                \<noteq> Inl (Error ''Failed to delete health log: Health log not found'')"
    by simp
  with m d show ?thesis by blast
qed

text \<open>C10 on the demo store, read with the wrong key.\<close>

theorem delete_of_undecryptable_record_fails_witness:
  "HealthLogService_deleteHealthLog demo_runtime \<lparr>encryptionKey = ''k2''\<rparr>
       (Runs 300) (Runs 300) 1 demo_store
     = (Inl (Error (''Failed to delete health log: Failed to retrieve health log: ''
                     @ ''Decryption failed: Invalid key or corrupted data'')), demo_store)"
proof -
  let ?row = "\<lparr>id' = 1, user_id = 7,
                 encrypted_data = CHR ''s'' # rev ''k1'' @ demo_log_json,
                 created_at = 100, updated_at = 100,
                 synced_at = None, cloud_id = None\<rparr>"
  have r: "getHealthLogById (Runs 300) 1 demo_store = Inr (Some ?row)"
    by (simp add: getHealthLogById_def demo_store_def)
  have d: "decrypt (cryptojs demo_runtime) (encrypted_data ?row)
                (encryptionKey \<lparr>encryptionKey = ''k2''\<rparr>)
             = \<lparr>decryptedData = [], dec_success = False,
                dec_error = Some ''Decryption failed: Invalid key or corrupted data''\<rparr>"
    by code_simp
  then have f: "\<not> dec_success (decrypt (cryptojs demo_runtime) (encrypted_data ?row)
                (encryptionKey \<lparr>encryptionKey = ''k2''\<rparr>))"
    by simp
  from delete_of_undecryptable_record_fails [OF r f, of "Runs 300"] d
  show ?thesis by simp
qed

end
